theory Spec2Isabelle
  imports Complex_Main "HOL-Library.Word"
begin

unbundle bit_operations_syntax

chapter \<open>CreateWOBJ: the asset compiler core\<close>

text \<open>
  A shallow embedding of the parts of CreateWOBJ that its specification makes claims
  about: the index and vertex formats of \<^verbatim>\<open>VertexFormat.h\<close>, the 16-bit float
  encoder of \<^verbatim>\<open>ieee754_2008.h\<close>, and the mesh, skeleton and animation passes of
  \<^verbatim>\<open>Main.cpp\<close>.

  Conventions of the embedding.
  \<^item> C++ \<^verbatim>\<open>float\<close> and \<^verbatim>\<open>double\<close> values that are only added, multiplied, divided
    and compared are modelled by \<^typ>\<open>real\<close>: rounding is not modelled, and a division
    whose divisor can be 0 is guarded where the code's result depends on it. The floats of the bone
    channels, which the emission pass divides by a sum that can be 0, are real numbers
    extended by the two infinities and NaN. The 16-bit float encoder, whose claims are
    about NaN, infinities and the sign bit, works on what the bit pattern of its
    argument denotes.
  \<^item> Bit-fields and fixed-width integers whose truncation matters are words.
    Counters that run over vertices, indices, nodes and bones are \<^typ>\<open>nat\<close>: a scene
    held in memory does not reach the 2^31 elements at which the C++ \<^verbatim>\<open>int\<close> would wrap.
  \<^item> The scene graph is the importer's: nodes, meshes, bones and animations are
    records and datatypes with the importer's field names. A pointer plus a count is
    a list; a null pointer is the empty list.
  \<^item> Matrices are the importer's too. What the code computes with them (transformed
    positions and normals, the bounding box, the bind matrices of the bones) is not
    modelled; the model keeps which cells of the buffers are written.
  \<^item> A loop over an index range is a \<open>foldl\<close> over that range with the loop body as
    its step; a recursion over the node tree is a pair of mutually recursive functions
    over a node and over a list of children.
\<close>

section \<open>Index format (VertexFormat.h)\<close>

text \<open>\<^verbatim>\<open>const uchar uchar_max = uchar(-1); const ushort ushort_max = ushort(-1);\<close>\<close>

definition uchar_max :: "8 word" where
  "uchar_max = - 1"

definition ushort_max :: "16 word" where
  "ushort_max = - 1"

text \<open>
  \<^verbatim>\<open>IndexFormat\<close> holds the bytes per index and the pair of accessors for the chosen
  integer type; the accessor pair is represented by the name of the type.
\<close>

datatype IndexType = Index_uchar | Index_ushort | Index_uint

record IndexFormat =
  bpi :: "8 word"
  index_type :: IndexType

text \<open>
  The constructor \<^verbatim>\<open>IndexFormat(int vertex_count)\<close>. The argument is a signed 32-bit
  integer; the two constants are promoted to \<^verbatim>\<open>int\<close> for the comparison.
\<close>

definition IndexFormat_new :: "32 word \<Rightarrow> IndexFormat" where
  "IndexFormat_new vertex_count =
     (if sint vertex_count < uint uchar_max
      then \<lparr>bpi = 1, index_type = Index_uchar\<rparr>
      else if sint vertex_count < uint ushort_max
      then \<lparr>bpi = 2, index_type = Index_ushort\<rparr>
      else \<lparr>bpi = 4, index_type = Index_uint\<rparr>)"

lemma uint_uchar_max: "uint uchar_max = 255"
  by (simp add: uchar_max_def uint_word_ariths)

lemma uint_ushort_max: "uint ushort_max = 65535"
  by (simp add: ushort_max_def uint_word_ariths)

lemma bpi_IndexFormat_new:
  "bpi (IndexFormat_new v) =
     (if sint v < 255 then 1 else if sint v < 65535 then 2 else 4)"
  by (simp add: IndexFormat_new_def uint_uchar_max uint_ushort_max)

text \<open>
  Claim C2, as the code has it: the index width is 1 byte for a vertex count below 255,
  2 bytes from 255 up to 65534, and 4 bytes from 65535 on. For the vertex counts
  0, 255, 256, 65535 and 65536 the widths are 1, 2, 2, 4 and 4 bytes.
\<close>

theorem index_width_thresholds:
  "(sint v < 255 \<longrightarrow> bpi (IndexFormat_new v) = 1) \<and>
   (255 \<le> sint v \<and> sint v < 65535 \<longrightarrow> bpi (IndexFormat_new v) = 2) \<and>
   (65535 \<le> sint v \<longrightarrow> bpi (IndexFormat_new v) = 4) \<and>
   map (\<lambda>n. bpi (IndexFormat_new n)) [0, 255, 256, 65535, 65536] = [1, 2, 2, 4, 4]"
  by (simp add: bpi_IndexFormat_new)

theorem index_width_thresholds_witness:
  "sint (254 :: 32 word) < 255 \<and> bpi (IndexFormat_new 254) = 1 \<and>
   255 \<le> sint (65534 :: 32 word) \<and> sint (65534 :: 32 word) < 65535 \<and>
   bpi (IndexFormat_new 65534) = 2 \<and>
   65535 \<le> sint (70000 :: 32 word) \<and> bpi (IndexFormat_new 70000) = 4"
  using index_width_thresholds [of 254] index_width_thresholds [of 65534]
    index_width_thresholds [of 70000]
  by simp

text \<open>
  The claim as the specification words it (1 byte below 256, 2 bytes below 65536) fails
  at 255 vertices, which get 2-byte indices, and at 65535 vertices, which get 4-byte
  indices.
\<close>

theorem index_width_counterexample:
  "sint (255 :: 32 word) < 256 \<and> bpi (IndexFormat_new 255) = 2 \<and>
   sint (65535 :: 32 word) < 65536 \<and> bpi (IndexFormat_new 65535) = 4"
  by (simp add: bpi_IndexFormat_new)

section \<open>The importer's scene graph\<close>

text \<open>
  The scene that the import provider hands over. Only what the compiler reads is kept.
  Vertex positions, normals and texture coordinates are read but their values are not
  modelled: a mesh records whether each array is present. A triangle face is its three
  vertex indices. A node refers to its meshes by their index in the scene's mesh list.
\<close>

datatype float3 = Float3 (f3x: real) (f3y: real) (f3z: real)

datatype aiQuaternion = Quat (qw: real) (qx: real) (qy: real) (qz: real)

record aiVertexWeight =
  mVertexId :: nat
  mWeight :: real

record aiBone =
  bone_mName :: string
  mWeights :: "aiVertexWeight list"

record aiMesh =
  mesh_mName :: string
  mPrimitiveTypes :: nat
  mNumVertices :: nat
  has_mVertices :: bool
  has_mNormals :: bool
  has_mTextureCoords0 :: bool
  mFaces :: "(nat \<times> nat \<times> nat) list"
  mBones :: "aiBone list"

datatype aiNode = Node (mName: string) (mMeshes: "nat list") (mChildren: "aiNode list")

record aiVectorKey =
  vk_mTime :: real
  vk_mValue :: float3

record aiQuatKey =
  qk_mTime :: real
  qk_mValue :: aiQuaternion

record aiNodeAnim =
  mNodeName :: string
  mPositionKeys :: "aiVectorKey list"
  mRotationKeys :: "aiQuatKey list"
  mScalingKeys :: "aiVectorKey list"

record aiAnimation =
  anim_mName :: string
  mDuration :: real
  mChannels :: "aiNodeAnim list"

record aiScene =
  mRootNode :: aiNode
  scene_mMeshes :: "aiMesh list"
  mAnimations :: "aiAnimation list"

definition aiPrimitiveType_TRIANGLE :: nat where
  "aiPrimitiveType_TRIANGLE = 4"




definition HasNormals :: "aiMesh \<Rightarrow> bool" where
  "HasNormals mesh = (has_mNormals mesh \<and> 0 < mNumVertices mesh)"

definition HasTextureCoords0 :: "aiMesh \<Rightarrow> bool" where
  "HasTextureCoords0 mesh = (has_mTextureCoords0 mesh \<and> 0 < mNumVertices mesh)"


definition HasAnimations :: "aiScene \<Rightarrow> bool" where
  "HasAnimations scene = (mAnimations scene \<noteq> [])"

section \<open>Vertex format (VertexFormat.h, TypeToken.h)\<close>

datatype TypeToken =
  TYPE_CHAR | TYPE_UCHAR | TYPE_SHORT | TYPE_USHORT | TYPE_INT | TYPE_UINT
  | TYPE_HALF_FLOAT | TYPE_FLOAT

fun sizeof :: "TypeToken \<Rightarrow> nat" where
  "sizeof TYPE_CHAR = 1"
| "sizeof TYPE_UCHAR = 1"
| "sizeof TYPE_SHORT = 2"
| "sizeof TYPE_USHORT = 2"
| "sizeof TYPE_INT = 4"
| "sizeof TYPE_UINT = 4"
| "sizeof TYPE_HALF_FLOAT = 2"
| "sizeof TYPE_FLOAT = 4"

text \<open>
  \<^verbatim>\<open>AttribType\<close> packs its first four fields into bit-fields of 6, 6, 3 and 1 bits.
  The two accessor pointers are fixed by the element type, the element count and the
  normalized flag, and are not repeated here.
\<close>

record AttribType =
  offset :: "6 word"
  bpa :: "6 word"
  numElements :: "3 word"
  normalized :: bool
  elementType :: TypeToken

definition createAttribType :: "TypeToken \<Rightarrow> 8 word \<Rightarrow> bool \<Rightarrow> 8 word \<Rightarrow> AttribType" where
  "createAttribType T n_elem nrm off =
     \<lparr>offset = ucast off,
      bpa = of_nat (sizeof T * unat n_elem),
      numElements = ucast n_elem,
      normalized = nrm,
      elementType = T\<rparr>"

record VertexFormat =
  attributes :: "AttribType list"
  bpv :: "8 word"

definition VertexFormat_new :: VertexFormat where
  "VertexFormat_new = \<lparr>attributes = [], bpv = 0\<rparr>"

definition addAttribute :: "TypeToken \<Rightarrow> 8 word \<Rightarrow> bool \<Rightarrow> VertexFormat \<Rightarrow> VertexFormat" where
  "addAttribute T n_elem nrm fmt =
     (let type = createAttribType T n_elem nrm (bpv fmt)
      in \<lparr>attributes = attributes fmt @ [type], bpv = bpv fmt + ucast (bpa type)\<rparr>)"

definition getBytesPerVertex :: "VertexFormat \<Rightarrow> 8 word" where
  "getBytesPerVertex fmt = bpv fmt"

subsection \<open>The layout that loadScene declares (Main.cpp, lines 224 to 227)\<close>

text \<open>
  \<^verbatim>\<open>short nAnim = scene->HasAnimations()?(short)scene->mNumAnimations:0;\<close>
  The cast keeps the low 16 bits of the animation count.
\<close>

definition nAnim :: "aiScene \<Rightarrow> 16 word" where
  "nAnim scene = (if HasAnimations scene then of_nat (length (mAnimations scene)) else 0)"

definition loadScene_format :: "aiScene \<Rightarrow> VertexFormat" where
  "loadScene_format scene =
     (let format = VertexFormat_new;
          format = addAttribute TYPE_FLOAT 3 False format;
          format = addAttribute TYPE_FLOAT 3 False format;
          format = addAttribute TYPE_FLOAT 2 False format
      in if 0 < sint (nAnim scene)
         then addAttribute TYPE_FLOAT 4 False (addAttribute TYPE_FLOAT 4 False format)
         else format)"

text \<open>The five channels, by the names of the enumeration in Main.cpp.\<close>

definition POSITION :: nat where "POSITION = 0"
definition NORMAL :: nat where "NORMAL = 1"
definition TEX_COORD :: nat where "TEX_COORD = 2"
definition BONE_IDX :: nat where "BONE_IDX = 3"
definition BONE_WEIGHT :: nat where "BONE_WEIGHT = 4"

definition float_attrib :: "nat \<Rightarrow> nat \<Rightarrow> AttribType" where
  "float_attrib off n =
     \<lparr>offset = of_nat off, bpa = of_nat (4 * n), numElements = of_nat n,
      normalized = False, elementType = TYPE_FLOAT\<rparr>"

lemma base_format:
  "addAttribute TYPE_FLOAT 2 False
     (addAttribute TYPE_FLOAT 3 False (addAttribute TYPE_FLOAT 3 False VertexFormat_new)) =
   \<lparr>attributes = [float_attrib 0 3, float_attrib 12 3, float_attrib 24 2], bpv = 32\<rparr>"
  by (simp add: addAttribute_def createAttribType_def VertexFormat_new_def float_attrib_def
      Let_def)

lemma skinned_format:
  "addAttribute TYPE_FLOAT 4 False (addAttribute TYPE_FLOAT 4 False
     \<lparr>attributes = [float_attrib 0 3, float_attrib 12 3, float_attrib 24 2], bpv = 32\<rparr>) =
   \<lparr>attributes = [float_attrib 0 3, float_attrib 12 3, float_attrib 24 2,
                  float_attrib 32 4, float_attrib 48 4], bpv = 64\<rparr>"
  by (simp add: addAttribute_def createAttribType_def float_attrib_def Let_def)

lemma loadScene_format_eq:
  "loadScene_format scene =
     (if 0 < sint (nAnim scene)
      then \<lparr>attributes = [float_attrib 0 3, float_attrib 12 3, float_attrib 24 2,
                  float_attrib 32 4, float_attrib 48 4], bpv = 64\<rparr>
      else \<lparr>attributes = [float_attrib 0 3, float_attrib 12 3, float_attrib 24 2],
             bpv = 32\<rparr>)"
  unfolding loadScene_format_def Let_def base_format skinned_format by simp

lemma nAnim_pos_HasAnimations: "0 < sint (nAnim scene) \<Longrightarrow> mAnimations scene \<noteq> []"
  by (auto simp: nAnim_def HasAnimations_def split: if_splits)

text \<open>
  Claim C3, as the code has it: the vertex layout always holds position (3 floats at
  byte 0), normal (3 floats at byte 12) and texture coordinate (2 floats at byte 24),
  whatever the meshes of the scene provide; it holds the bone index and bone weight
  channels (4 floats each, at bytes 32 and 48) only if the scene has at least one
  animation. The stride is 32 bytes without the bone channels and 64 bytes with them.
\<close>

theorem vertex_layout:
  "take 3 (attributes (loadScene_format scene)) =
     [float_attrib 0 3, float_attrib 12 3, float_attrib 24 2] \<and>
   (BONE_WEIGHT < length (attributes (loadScene_format scene)) \<longrightarrow>
      mAnimations scene \<noteq> [] \<and>
      drop 3 (attributes (loadScene_format scene)) = [float_attrib 32 4, float_attrib 48 4] \<and>
      getBytesPerVertex (loadScene_format scene) = 64) \<and>
   (\<not> BONE_WEIGHT < length (attributes (loadScene_format scene)) \<longrightarrow>
      length (attributes (loadScene_format scene)) = 3 \<and>
      getBytesPerVertex (loadScene_format scene) = 32) \<and>
   (mAnimations scene = [] \<longrightarrow> getBytesPerVertex (loadScene_format scene) = 32)"
  using nAnim_pos_HasAnimations [of scene]
  by (auto simp: loadScene_format_eq getBytesPerVertex_def BONE_WEIGHT_def)

text \<open>
  A scene of one node with one triangle mesh of three vertices and one face, without
  normals or texture coordinates, and without animations; and the same scene with one
  animation.
\<close>

definition triangle_mesh :: aiMesh where
  "triangle_mesh =
     \<lparr>mesh_mName = ''tri'', mPrimitiveTypes = aiPrimitiveType_TRIANGLE, mNumVertices = 3,
      has_mVertices = True, has_mNormals = False, has_mTextureCoords0 = False,
      mFaces = [(0, 1, 2)], mBones = []\<rparr>"

definition triangle_scene :: aiScene where
  "triangle_scene =
     \<lparr>mRootNode = Node ''root'' [0] [], scene_mMeshes = [triangle_mesh], mAnimations = []\<rparr>"

definition animated_triangle_scene :: aiScene where
  "animated_triangle_scene =
     triangle_scene\<lparr>mAnimations :=
       [\<lparr>anim_mName = ''idle'', mDuration = 1, mChannels = []\<rparr>]\<rparr>"

lemma nAnim_triangle_scene: "nAnim triangle_scene = 0" by (simp add: nAnim_def HasAnimations_def triangle_scene_def)
lemma nAnim_animated_triangle_scene: "nAnim animated_triangle_scene = 1" by (simp add: nAnim_def HasAnimations_def triangle_scene_def animated_triangle_scene_def)
lemma mAnimations_triangle_scene: "mAnimations triangle_scene = []"
  by (simp add: triangle_scene_def)
lemma mAnimations_animated_triangle_scene: "mAnimations animated_triangle_scene \<noteq> []"
  by (simp add: triangle_scene_def animated_triangle_scene_def)




theorem vertex_layout_witness:
  "BONE_WEIGHT < length (attributes (loadScene_format animated_triangle_scene)) \<and>
   mAnimations animated_triangle_scene \<noteq> [] \<and>
   getBytesPerVertex (loadScene_format animated_triangle_scene) = 64 \<and>
   \<not> BONE_WEIGHT < length (attributes (loadScene_format triangle_scene)) \<and>
   mAnimations triangle_scene = [] \<and>
   getBytesPerVertex (loadScene_format triangle_scene) = 32"
proof -
  have a: "BONE_WEIGHT < length (attributes (loadScene_format animated_triangle_scene))"
    by (simp add: loadScene_format_eq nAnim_animated_triangle_scene BONE_WEIGHT_def)
  have b: "\<not> BONE_WEIGHT < length (attributes (loadScene_format triangle_scene))"
    by (simp add: loadScene_format_eq nAnim_triangle_scene BONE_WEIGHT_def)
  have c: "mAnimations triangle_scene = []"
    by (rule mAnimations_triangle_scene)
  from vertex_layout [of animated_triangle_scene] a
  have "mAnimations animated_triangle_scene \<noteq> [] \<and>
    getBytesPerVertex (loadScene_format animated_triangle_scene) = 64"
    by blast
  moreover from vertex_layout [of triangle_scene] c
  have "getBytesPerVertex (loadScene_format triangle_scene) = 32"
    by blast
  ultimately show ?thesis
    using a b c by blast
qed

text \<open>
  The claim as the specification words it fails on the triangle scene: its mesh has no
  normals and no texture coordinates and the scene has no animation, yet the layout has
  three channels and a stride of 32 bytes, not the 12 bytes of a position alone.
\<close>

theorem vertex_layout_counterexample:
  "\<not> HasNormals triangle_mesh \<and> \<not> HasTextureCoords0 triangle_mesh \<and>
   \<not> HasAnimations triangle_scene \<and>
   scene_mMeshes triangle_scene = [triangle_mesh] \<and>
   length (attributes (loadScene_format triangle_scene)) = 3 \<and>
   unat (getBytesPerVertex (loadScene_format triangle_scene)) = 32 \<and>
   sizeof TYPE_FLOAT * 3 = 12"
proof -
  have "\<not> HasNormals triangle_mesh" "\<not> HasTextureCoords0 triangle_mesh"
    by (simp_all add: triangle_mesh_def HasNormals_def HasTextureCoords0_def)
  moreover have "\<not> HasAnimations triangle_scene"
    by (simp add: HasAnimations_def mAnimations_triangle_scene)
  moreover have "scene_mMeshes triangle_scene = [triangle_mesh]"
    by (simp add: triangle_scene_def)
  moreover have "length (attributes (loadScene_format triangle_scene)) = 3"
    "unat (getBytesPerVertex (loadScene_format triangle_scene)) = 32"
    by (simp_all add: loadScene_format_eq nAnim_triangle_scene getBytesPerVertex_def)
  moreover have "sizeof TYPE_FLOAT * 3 = 12"
    by simp
  ultimately show ?thesis by blast
qed

section \<open>Scene flattener (Main.cpp, loadTree)\<close>

text \<open>
  The state that \<^verbatim>\<open>loadTree\<close> threads through its recursion: the vector of
  (node, first child index) pairs, the next free index, and the name to index map.
  A slot of the vector that \<^verbatim>\<open>resize\<close> has created and no node has taken yet holds
  a null node and 0.
\<close>

record tree_state =
  nodes :: "(aiNode option \<times> nat) list"
  index :: nat
  node_map :: "string \<rightharpoonup> nat"

text \<open>
  What \<^verbatim>\<open>loadTree\<close> does for the node itself (lines 149 to 151): it reserves the
  block of its children at the next free index, enters its name in the map if the node
  has no mesh and the name is new, and stores the node in its own slot \<^verbatim>\<open>cur\<close>.
\<close>

definition loadTree_visit :: "tree_state \<Rightarrow> aiNode \<Rightarrow> nat \<Rightarrow> tree_state" where
  "loadTree_visit st node cur =
     (let len = length (mChildren node);
          childIdx = index st;
          st = st\<lparr>index := index st + len\<rparr>;
          st = (if mMeshes node = [] \<and> node_map st (mName node) = None
                then st\<lparr>node_map := (node_map st)(mName node \<mapsto> cur)\<rparr> else st);
          st = (if length (nodes st) \<le> cur
                then st\<lparr>nodes := nodes st @ replicate (cur + 1 - length (nodes st)) (None, 0)\<rparr>
                else st)
      in st\<lparr>nodes := (nodes st)[cur := (Some node, childIdx)]\<rparr>)"

text \<open>
  The recursion (line 152): child \<^verbatim>\<open>i\<close> goes to slot \<^verbatim>\<open>childIdx+i\<close>. The value that
  \<^verbatim>\<open>loadTree\<close> returns is the null pointer on every path and is left out.
\<close>

fun loadTree :: "tree_state \<Rightarrow> aiNode \<Rightarrow> nat \<Rightarrow> tree_state"
  and loadTree_children :: "tree_state \<Rightarrow> aiNode list \<Rightarrow> nat \<Rightarrow> nat \<Rightarrow> tree_state" where
  "loadTree st (Node name meshes children) cur =
     loadTree_children (loadTree_visit st (Node name meshes children) cur) children (index st) 0"
| "loadTree_children st [] childIdx i = st"
| "loadTree_children st (c # cs) childIdx i =
     loadTree_children (loadTree st c (childIdx + i)) cs childIdx (i + 1)"

text \<open>The call of loadScene (line 242): the root goes to slot 0, the next free index is 1.\<close>

definition flatten :: "aiNode \<Rightarrow> tree_state" where
  "flatten rt = loadTree \<lparr>nodes = [], index = 1, node_map = Map.empty\<rparr> rt 0"

fun count_nodes :: "aiNode \<Rightarrow> nat" where
  "count_nodes (Node name meshes children) = 1 + sum_list (map count_nodes children)"

lemma index_visit: "index (loadTree_visit st node cur) = index st + length (mChildren node)"
  by (simp add: loadTree_visit_def Let_def)

definition pad :: "(aiNode option \<times> nat) list \<Rightarrow> nat \<Rightarrow> (aiNode option \<times> nat) list" where
  "pad ns cur = (if length ns \<le> cur then ns @ replicate (cur + 1 - length ns) (None, 0) else ns)"

lemma nodes_visit:
  "nodes (loadTree_visit st node cur) = (pad (nodes st) cur)[cur := (Some node, index st)]"
  by (simp add: loadTree_visit_def Let_def pad_def)

lemma length_pad: "length (pad ns cur) = max (length ns) (cur + 1)"
  by (simp add: pad_def)

lemma nth_pad: "j < length (pad ns cur) \<Longrightarrow>
  pad ns cur ! j = (if j < length ns then ns ! j else (None, 0))"
  by (auto simp: pad_def nth_append)

lemma index_mono:
  "index st \<le> index (loadTree st node cur)"
  "index st \<le> index (loadTree_children st cs childIdx i)"
proof (induction st node cur and st cs childIdx i rule: loadTree_loadTree_children.induct)
  case (1 st name meshes children cur)
  then show ?case by (simp add: index_visit)
next
  case (2 st childIdx i)
  then show ?case by simp
next
  case (3 st c cs childIdx i)
  then show ?case by simp
qed

lemma count_nodes_pos: "0 < count_nodes node"
  by (cases node) simp

lemma sum_count_nodes:
  "length cs + sum_list (map (\<lambda>c. count_nodes c - 1) cs) = sum_list (map count_nodes cs)"
proof (induction cs)
  case Nil
  then show ?case by simp
next
  case (Cons c cs)
  then show ?case using count_nodes_pos [of c] by simp
qed

lemma index_count:
  "index (loadTree st node cur) = index st + (count_nodes node - 1)"
  "index (loadTree_children st cs childIdx i) =
     index st + sum_list (map (\<lambda>c. count_nodes c - 1) cs)"
proof (induction st node cur and st cs childIdx i rule: loadTree_loadTree_children.induct)
  case (1 st name meshes children cur)
  then show ?case using sum_count_nodes [of children] by (simp add: index_visit)
next
  case (2 st childIdx i)
  then show ?case by simp
next
  case (3 st c cs childIdx i)
  then show ?case by simp
qed


definition tree_inv :: "tree_state \<Rightarrow> bool" where
  "tree_inv st \<longleftrightarrow>
     length (nodes st) \<le> index st \<and>
     (\<forall>j < length (nodes st). \<forall>n c. nodes st ! j = (Some n, c) \<longrightarrow>
        j < c \<and> c + length (mChildren n) \<le> index st) \<and>
     (\<forall>i < length (nodes st). \<forall>j < length (nodes st). \<forall>n m c.
        i \<noteq> j \<and> nodes st ! i = (Some n, c) \<and> nodes st ! j = (Some m, c) \<longrightarrow>
        mChildren n = [] \<or> mChildren m = [])"

lemma nth_visit:
  assumes "j < length (nodes (loadTree_visit st node cur))"
  shows "nodes (loadTree_visit st node cur) ! j =
     (if j = cur then (Some node, index st)
      else if j < length (nodes st) then nodes st ! j else (None, 0))"
  using assms by (simp add: nodes_visit nth_pad length_pad nth_list_update)

lemma length_visit:
  "length (nodes (loadTree_visit st node cur)) = max (length (nodes st)) (cur + 1)"
  by (simp add: nodes_visit length_pad)

lemma tree_inv_visit:
  assumes "tree_inv st" and "cur < index st"
  shows "tree_inv (loadTree_visit st node cur)"
proof -
  let ?st = "loadTree_visit st node cur"
  have len: "length (nodes ?st) \<le> index ?st"
    using assms by (simp add: length_visit index_visit tree_inv_def)
  have old: "j < c \<and> c + length (mChildren n) \<le> index st"
    if "j < length (nodes st)" "nodes st ! j = (Some n, c)" for j n c
    using assms(1) that unfolding tree_inv_def by blast
  have entry: "(j = cur \<and> n = node \<and> c = index st) \<or>
      (j \<noteq> cur \<and> j < length (nodes st) \<and> nodes st ! j = (Some n, c))"
    if "j < length (nodes ?st)" "nodes ?st ! j = (Some n, c)" for j n c
    using that by (auto simp: nth_visit split: if_splits)
  have a: "j < c \<and> c + length (mChildren n) \<le> index ?st"
    if "j < length (nodes ?st)" "nodes ?st ! j = (Some n, c)" for j n c
    using entry [OF that] old [of j n c] assms(2) by (auto simp: index_visit)
  have b: "mChildren n = [] \<or> mChildren m = []"
    if h: "i < length (nodes ?st)" "j < length (nodes ?st)" "i \<noteq> j"
      "nodes ?st ! i = (Some n, c)" "nodes ?st ! j = (Some m, c)" for i j n m c
  proof -
    consider "i = cur" "j \<noteq> cur" | "j = cur" "i \<noteq> cur" | "i \<noteq> cur" "j \<noteq> cur"
      using h(3) by blast
    then show ?thesis
    proof cases
      case 1
      with entry [OF h(1,4)] entry [OF h(2,5)]
      have "c = index st" "j < length (nodes st)" "nodes st ! j = (Some m, c)" by auto
      with old [of j m c] show ?thesis by simp
    next
      case 2
      with entry [OF h(1,4)] entry [OF h(2,5)]
      have "c = index st" "i < length (nodes st)" "nodes st ! i = (Some n, c)" by auto
      with old [of i n c] show ?thesis by simp
    next
      case 3
      with entry [OF h(1,4)] entry [OF h(2,5)]
      have "i < length (nodes st)" "nodes st ! i = (Some n, c)"
        "j < length (nodes st)" "nodes st ! j = (Some m, c)" by auto
      with assms(1) h(3) show ?thesis unfolding tree_inv_def by blast
    qed
  qed
  show ?thesis
    unfolding tree_inv_def using len a b by blast
qed


lemma tree_inv_loadTree:
  "tree_inv st \<Longrightarrow> cur < index st \<Longrightarrow> tree_inv (loadTree st node cur)"
  "tree_inv st \<Longrightarrow> childIdx + i + length cs \<le> index st \<Longrightarrow>
     tree_inv (loadTree_children st cs childIdx i)"
proof (induction st node cur and st cs childIdx i rule: loadTree_loadTree_children.induct)
  case (1 st name meshes children cur)
  then show ?case by (simp add: tree_inv_visit index_visit)
next
  case (2 st childIdx i)
  then show ?case by simp
next
  case (3 st c cs childIdx i)
  have "childIdx + (i + 1) + length cs \<le> index (loadTree st c (childIdx + i))"
    using 3(4) index_mono(1) [of st c "childIdx + i"] by simp
  moreover have "tree_inv (loadTree st c (childIdx + i))"
    using 3 by simp
  ultimately show ?case using 3(2) by simp
qed


definition filled :: "tree_state \<Rightarrow> nat set" where
  "filled st = {j. j < length (nodes st) \<and> fst (nodes st ! j) \<noteq> None}"

lemma filled_visit: "filled (loadTree_visit st node cur) = insert cur (filled st)"
  unfolding filled_def
  by (auto simp: nth_visit length_visit split: if_splits)



lemma ivl_join: "a \<le> b \<Longrightarrow> b \<le> c \<Longrightarrow> {a ..< b} \<union> {b ..< c} = {a ..< (c::nat)}"
  by auto

lemma ivl_first: "{k ..< k + Suc n} = insert k {k + 1 ..< k + 1 + n}"
  by auto

lemma filled_loadTree:
  "filled (loadTree st node cur) =
     insert cur (filled st) \<union> {index st ..< index (loadTree st node cur)}"
  "filled (loadTree_children st cs childIdx i) =
     filled st \<union> {childIdx + i ..< childIdx + i + length cs} \<union>
     {index st ..< index (loadTree_children st cs childIdx i)}"
proof (induction st node cur and st cs childIdx i rule: loadTree_loadTree_children.induct)
  case (1 st name meshes children cur)
  let ?v = "loadTree_visit st (Node name meshes children) cur"
  let ?r = "loadTree_children ?v children (index st) 0"
  have "index ?v \<le> index ?r"
    by (rule index_mono)
  then have "{index st ..< index st + length children} \<union> {index ?v ..< index ?r} =
      {index st ..< index ?r}"
    by (simp add: index_visit ivl_join)
  moreover have "filled ?r = insert cur (filled st) \<union>
      {index st ..< index st + length children} \<union> {index ?v ..< index ?r}"
    using 1 by (simp add: filled_visit)
  ultimately have "filled ?r = insert cur (filled st) \<union> {index st ..< index ?r}"
    by blast
  then show ?case by simp
next
  case (2 st childIdx i)
  then show ?case by simp
next
  case (3 st c cs childIdx i)
  let ?k = "childIdx + i"
  let ?s1 = "loadTree st c ?k"
  let ?s2 = "loadTree_children ?s1 cs childIdx (i + 1)"
  have "index st \<le> index ?s1" "index ?s1 \<le> index ?s2"
    by (rule index_mono)+
  then have B: "{index st ..< index ?s1} \<union> {index ?s1 ..< index ?s2} = {index st ..< index ?s2}"
    by (rule ivl_join)
  have A: "{?k ..< ?k + length (c # cs)} = insert ?k {?k + 1 ..< ?k + 1 + length cs}"
    using ivl_first [of ?k "length cs"] by simp
  have C: "filled ?s1 = insert ?k (filled st) \<union> {index st ..< index ?s1}"
    using 3(1) .
  have D: "filled ?s2 = filled ?s1 \<union> {?k + 1 ..< ?k + 1 + length cs} \<union>
      {index ?s1 ..< index ?s2}"
    using 3(2) by (simp add: add.assoc)
  have "filled ?s2 = filled st \<union> {?k ..< ?k + length (c # cs)} \<union> {index st ..< index ?s2}"
    unfolding D C A using B by blast
  then show ?case by simp
qed

lemma flatten_shape:
  "tree_inv (flatten rt)"
  "index (flatten rt) = count_nodes rt"
  "length (nodes (flatten rt)) = count_nodes rt"
  "j < count_nodes rt \<Longrightarrow> fst (nodes (flatten rt) ! j) \<noteq> None"
proof -
  let ?s0 = "\<lparr>nodes = [], index = 1, node_map = Map.empty\<rparr>"
  have inv0: "tree_inv ?s0"
    by (simp add: tree_inv_def)
  show inv: "tree_inv (flatten rt)"
    unfolding flatten_def using inv0 by (rule tree_inv_loadTree) simp
  show idx: "index (flatten rt) = count_nodes rt"
    using count_nodes_pos [of rt] by (simp add: flatten_def index_count)
  have "filled ?s0 = {}"
    by (simp add: filled_def)
  then have "filled (flatten rt) = insert 0 {1 ..< count_nodes rt}"
    using idx by (simp add: flatten_def filled_loadTree)
  also have "\<dots> = {0 ..< count_nodes rt}"
    using count_nodes_pos [of rt] by auto
  finally have f: "filled (flatten rt) = {0 ..< count_nodes rt}" .
  have "count_nodes rt - 1 \<in> filled (flatten rt)"
    using f count_nodes_pos [of rt] by simp
  then have "count_nodes rt - 1 < length (nodes (flatten rt))"
    by (simp add: filled_def)
  then have "count_nodes rt \<le> length (nodes (flatten rt))"
    by arith
  moreover have "length (nodes (flatten rt)) \<le> count_nodes rt"
    using inv idx by (simp add: tree_inv_def)
  ultimately show len: "length (nodes (flatten rt)) = count_nodes rt"
    by simp
  show "fst (nodes (flatten rt) ! j) \<noteq> None" if "j < count_nodes rt"
  proof -
    from that f have "j \<in> filled (flatten rt)" by simp
    then show ?thesis by (simp add: filled_def)
  qed
qed


text \<open>
  Claim C8, as the code has it: the flattened array has as many entries as the tree has
  nodes, and every entry holds a node; the child-block start recorded for a node is
  strictly greater than the node's own index; and no two nodes that have children share
  a child-block start. (A node without children records the next free index without
  reserving anything, so it shares its start with the node visited after it.)
\<close>
theorem flatten_child_blocks:
  "length (nodes (flatten rt)) = count_nodes rt \<and>
   (\<forall>j < length (nodes (flatten rt)). \<exists>n c.
      nodes (flatten rt) ! j = (Some n, c) \<and> j < c) \<and>
   (\<forall>i < length (nodes (flatten rt)). \<forall>j < length (nodes (flatten rt)). \<forall>n m ci cj.
      i \<noteq> j \<and> nodes (flatten rt) ! i = (Some n, ci) \<and> nodes (flatten rt) ! j = (Some m, cj) \<and>
      mChildren n \<noteq> [] \<and> mChildren m \<noteq> [] \<longrightarrow> ci \<noteq> cj)"
proof -
  let ?ns = "nodes (flatten rt)"
  have inv: "tree_inv (flatten rt)" and len: "length ?ns = count_nodes rt"
    by (rule flatten_shape)+
  have a: "\<exists>n c. ?ns ! j = (Some n, c) \<and> j < c" if "j < length ?ns" for j
  proof -
    from that len have "fst (?ns ! j) \<noteq> None"
      by (simp add: flatten_shape(4))
    then obtain n c where e: "?ns ! j = (Some n, c)"
      by (cases "?ns ! j") auto
    with inv that have "j < c"
      unfolding tree_inv_def by blast
    with e show ?thesis by blast
  qed
  have b: "ci \<noteq> cj"
    if "i < length ?ns" "j < length ?ns" "i \<noteq> j" "?ns ! i = (Some n, ci)"
      "?ns ! j = (Some m, cj)" "mChildren n \<noteq> []" "mChildren m \<noteq> []" for i j n m ci cj
    using inv that unfolding tree_inv_def by blast
  show ?thesis
    using len a b by blast
qed

definition chain_tree :: aiNode where
  "chain_tree = Node ''root'' [] [Node ''a'' [] [Node ''c'' [] []], Node ''b'' [] []]"

lemma flatten_chain_tree:
  "nodes (flatten chain_tree) =
     [(Some chain_tree, 1), (Some (Node ''a'' [] [Node ''c'' [] []]), 3),
      (Some (Node ''b'' [] []), 4), (Some (Node ''c'' [] []), 4)]"
  by (simp add: chain_tree_def flatten_def loadTree_visit_def Let_def)

theorem flatten_child_blocks_witness:
  "(1::nat) < length (nodes (flatten chain_tree)) \<and>
   nodes (flatten chain_tree) ! 0 = (Some chain_tree, 1) \<and>
   nodes (flatten chain_tree) ! 1 = (Some (Node ''a'' [] [Node ''c'' [] []]), 3) \<and>
   mChildren chain_tree \<noteq> [] \<and> mChildren (Node ''a'' [] [Node ''c'' [] []]) \<noteq> [] \<and>
   (0::nat) < 1 \<and> (1::nat) < 3 \<and> (1::nat) \<noteq> 3"
  using flatten_child_blocks [of chain_tree]
  by (simp add: flatten_chain_tree) (simp add: chain_tree_def)

text \<open>
  The claim as the specification words it (no two nodes share a child-block start) fails
  on a root with two leaves: both leaves record the start 3.
\<close>

definition two_leaves :: aiNode where
  "two_leaves = Node ''root'' [] [Node ''a'' [] [], Node ''b'' [] []]"

lemma flatten_two_leaves:
  "nodes (flatten two_leaves) =
     [(Some two_leaves, 1), (Some (Node ''a'' [] []), 3), (Some (Node ''b'' [] []), 3)]"
  by (simp add: two_leaves_def flatten_def loadTree_visit_def Let_def)

theorem flatten_child_blocks_counterexample:
  "nodes (flatten two_leaves) ! 1 = (Some (Node ''a'' [] []), 3) \<and>
   nodes (flatten two_leaves) ! 2 = (Some (Node ''b'' [] []), 3) \<and>
   snd (nodes (flatten two_leaves) ! 1) = snd (nodes (flatten two_leaves) ! 2)"
  by (simp add: flatten_two_leaves)

section \<open>Animation compressor (Main.cpp, writeVectorArray and writeQuatArray)\<close>

text \<open>
  \<^verbatim>\<open>interp\<close> of common.h on three components, and the two \<^verbatim>\<open>equalsFuzzy\<close> of Main.cpp.
  The tolerance passed at every call is 0.00001.
\<close>

definition interp :: "float3 \<Rightarrow> float3 \<Rightarrow> real \<Rightarrow> float3" where
  "interp a b f =
     Float3 (f3x a * (1 - f) + f3x b * f) (f3y a * (1 - f) + f3y b * f)
       (f3z a * (1 - f) + f3z b * f)"

definition equalsFuzzy :: "float3 \<Rightarrow> float3 \<Rightarrow> real \<Rightarrow> bool" where
  "equalsFuzzy a b d \<longleftrightarrow>
     \<bar>f3x a - f3x b\<bar> < d \<and> \<bar>f3y a - f3y b\<bar> < d \<and> \<bar>f3z a - f3z b\<bar> < d"

definition equalsFuzzyQ :: "aiQuaternion \<Rightarrow> aiQuaternion \<Rightarrow> real \<Rightarrow> bool" where
  "equalsFuzzyQ a b d \<longleftrightarrow>
     \<bar>qx a - qx b\<bar> < d \<and> \<bar>qy a - qy b\<bar> < d \<and> \<bar>qz a - qz b\<bar> < d \<and> \<bar>qw a - qw b\<bar> < d"

definition epsilon :: real where
  "epsilon = 0.00001"

text \<open>
  One iteration of the loop of \<^verbatim>\<open>writeVectorArray\<close> (lines 172 to 179), on the list
  \<^verbatim>\<open>ar\<close> of retained indices. The time fraction is a floating-point quotient: when
  the two neighbours have the same time its divisor is 0, the quotient is infinite or
  NaN, so is every component of the interpolated value, and the comparison fails. The
  model tests for the zero divisor, since division by 0 is 0 in HOL.
\<close>

definition vector_step :: "aiVectorKey list \<Rightarrow> nat list \<Rightarrow> nat \<Rightarrow> nat list" where
  "vector_step keys ar i =
     (let count = length keys; k = keys ! i in
      if 0 < i \<and> i < count - 1 then
        (let from = vk_mValue (keys ! (i - 1));
             to = vk_mValue (keys ! (i + 1));
             span = vk_mTime (keys ! (i + 1)) - vk_mTime (keys ! (i - 1))
         in if span \<noteq> 0 \<and>
               equalsFuzzy (interp from to ((vk_mTime k - vk_mTime (keys ! (i - 1))) / span))
                 (vk_mValue k) epsilon
            then ar else ar @ [i])
      else if i = count - 1 \<and> 0 < i \<and>
              equalsFuzzy (vk_mValue (keys ! (i - 1))) (vk_mValue k) epsilon
      then ar
      else ar @ [i])"

definition vector_kept :: "aiVectorKey list \<Rightarrow> nat list" where
  "vector_kept keys = foldl (vector_step keys) [] [0 ..< length keys]"

text \<open>
  One iteration of the loop of \<^verbatim>\<open>writeQuatArray\<close> (lines 186 to 195). The spherical
  interpolation \<^verbatim>\<open>aiQuaternion::Interpolate\<close> belongs to the importer's library and is a
  parameter. \<^verbatim>\<open>ar[ar.size()-1]\<close> is \<open>last ar\<close>.
\<close>

definition quat_step ::
  "(aiQuaternion \<Rightarrow> aiQuaternion \<Rightarrow> real \<Rightarrow> aiQuaternion) \<Rightarrow> aiQuatKey list \<Rightarrow> nat list \<Rightarrow> nat \<Rightarrow> nat list" where
  "quat_step Interpolate keys ar i =
     (let count = length keys; k = keys ! i in
      if 0 < i \<and> i < count - 1 then
        (let prev = keys ! (last ar);
             from = qk_mValue prev;
             to = qk_mValue (keys ! (i + 1));
             span = qk_mTime (keys ! (i + 1)) - qk_mTime prev;
             est = Interpolate from to ((qk_mTime k - qk_mTime prev) / span)
         in if span \<noteq> 0 \<and> equalsFuzzyQ est (qk_mValue k) epsilon then ar else ar @ [i])
      else if i = count - 1 \<and> 0 < i \<and>
              equalsFuzzyQ (qk_mValue (keys ! (last ar))) (qk_mValue k) epsilon
      then ar
      else ar @ [i])"

definition quat_kept ::
  "(aiQuaternion \<Rightarrow> aiQuaternion \<Rightarrow> real \<Rightarrow> aiQuaternion) \<Rightarrow> aiQuatKey list \<Rightarrow> nat list" where
  "quat_kept Interpolate keys = foldl (quat_step Interpolate keys) [] [0 ..< length keys]"


lemma vector_step_cases: "vector_step keys ar i = ar \<or> vector_step keys ar i = ar @ [i]"
  by (simp add: vector_step_def Let_def)

lemma quat_step_cases:
  "quat_step Interpolate keys ar i = ar \<or> quat_step Interpolate keys ar i = ar @ [i]"
  by (simp add: quat_step_def Let_def)

lemma vector_step_first: "vector_step keys ar 0 = ar @ [0]"
  by (simp add: vector_step_def)

lemma quat_step_first: "quat_step Interpolate keys ar 0 = ar @ [0]"
  by (simp add: quat_step_def)

lemma vector_step_last:
  "keys \<noteq> [] \<Longrightarrow> vector_step keys ar (length keys - 1) =
     (if 1 < length keys \<and>
         equalsFuzzy (vk_mValue (keys ! (length keys - 2))) (vk_mValue (keys ! (length keys - 1)))
           epsilon
      then ar else ar @ [length keys - 1])"
  by (auto simp: vector_step_def Let_def numeral_2_eq_2)

lemma quat_step_last:
  "keys \<noteq> [] \<Longrightarrow> quat_step Interpolate keys ar (length keys - 1) =
     (if 1 < length keys \<and>
         equalsFuzzyQ (qk_mValue (keys ! (last ar))) (qk_mValue (keys ! (length keys - 1)))
           epsilon
      then ar else ar @ [length keys - 1])"
  by (auto simp: quat_step_def Let_def)

text \<open>
  A loop whose step either leaves the list alone or appends the current index: the
  list it started from stays as a prefix, and what it appends are indices it visited.
\<close>

lemma foldl_appends:
  assumes "\<And>ar i. step ar i = ar \<or> step ar i = ar @ [i]"
  shows "\<exists>ys. foldl step ar is = ar @ ys \<and> set ys \<subseteq> set is"
proof (induction "is" arbitrary: ar)
  case Nil
  then show ?case by simp
next
  case (Cons i "is")
  from Cons [of "step ar i"] obtain ys
    where ys: "foldl step (step ar i) is = step ar i @ ys" "set ys \<subseteq> set is"
    by blast
  from assms [of ar i] show ?case
  proof
    assume "step ar i = ar"
    with ys show ?thesis by auto
  next
    assume "step ar i = ar @ [i]"
    with ys have "foldl step ar (i # is) = ar @ (i # ys)" "set (i # ys) \<subseteq> set (i # is)"
      by auto
    then show ?thesis by blast
  qed
qed

lemma upt_first: "0 < n \<Longrightarrow> [0 ..< n] = 0 # [1 ..< n]"
  by (simp add: upt_rec)

lemma upt_last: "0 < n \<Longrightarrow> [0 ..< n] = [0 ..< n - 1] @ [n - 1]"
  by (cases n) simp_all

lemma vector_loop_first:
  assumes "0 < m"
  shows "\<exists>ys. foldl (vector_step keys) [] [0 ..< m] = 0 # ys"
proof -
  have "foldl (vector_step keys) [] [0 ..< m] = foldl (vector_step keys) [0] [1 ..< m]"
    using assms by (simp add: upt_first vector_step_first)
  moreover obtain ys where "foldl (vector_step keys) [0] [1 ..< m] = [0] @ ys"
    using foldl_appends [of "vector_step keys" "[0]" "[1 ..< m]"]
      vector_step_cases [of keys] by blast
  ultimately show ?thesis by simp
qed

lemma quat_loop_first:
  assumes "0 < m"
  shows "\<exists>ys. foldl (quat_step Interpolate keys) [] [0 ..< m] = 0 # ys"
proof -
  have "foldl (quat_step Interpolate keys) [] [0 ..< m] =
      foldl (quat_step Interpolate keys) [0] [1 ..< m]"
    using assms by (simp add: upt_first quat_step_first)
  moreover obtain ys
    where "foldl (quat_step Interpolate keys) [0] [1 ..< m] = [0] @ ys"
    using foldl_appends [of "quat_step Interpolate keys" "[0]" "[1 ..< m]"]
      quat_step_cases [of Interpolate keys] by blast
  ultimately show ?thesis by simp
qed

lemma vector_kept_first: "keys \<noteq> [] \<Longrightarrow> hd (vector_kept keys) = 0"
  using vector_loop_first [of "length keys" keys] by (auto simp: vector_kept_def)

lemma quat_kept_first: "keys \<noteq> [] \<Longrightarrow> hd (quat_kept Interpolate keys) = 0"
  using quat_loop_first [of "length keys" Interpolate keys] by (auto simp: quat_kept_def)

text \<open>The samples retained when the loop reaches the last sample.\<close>

definition vector_kept_before_last :: "aiVectorKey list \<Rightarrow> nat list" where
  "vector_kept_before_last keys = foldl (vector_step keys) [] [0 ..< length keys - 1]"

definition quat_kept_before_last ::
  "(aiQuaternion \<Rightarrow> aiQuaternion \<Rightarrow> real \<Rightarrow> aiQuaternion) \<Rightarrow> aiQuatKey list \<Rightarrow> nat list" where
  "quat_kept_before_last Interpolate keys =
     foldl (quat_step Interpolate keys) [] [0 ..< length keys - 1]"

lemma vector_kept_before_last_bound: "i \<in> set (vector_kept_before_last keys) \<Longrightarrow> i < length keys - 1"
proof -
  obtain ys where "vector_kept_before_last keys = [] @ ys" "set ys \<subseteq> set [0 ..< length keys - 1]"
    unfolding vector_kept_before_last_def
    using foldl_appends [of "vector_step keys" "[]" "[0 ..< length keys - 1]"]
      vector_step_cases [of keys] by blast
  then show "i \<in> set (vector_kept_before_last keys) \<Longrightarrow> i < length keys - 1"
    by auto
qed

lemma quat_kept_before_last_bound:
  "i \<in> set (quat_kept_before_last Interpolate keys) \<Longrightarrow> i < length keys - 1"
proof -
  obtain ys where "quat_kept_before_last Interpolate keys = [] @ ys"
      "set ys \<subseteq> set [0 ..< length keys - 1]"
    unfolding quat_kept_before_last_def
    using foldl_appends [of "quat_step Interpolate keys" "[]" "[0 ..< length keys - 1]"]
      quat_step_cases [of Interpolate keys] by blast
  then show "i \<in> set (quat_kept_before_last Interpolate keys) \<Longrightarrow> i < length keys - 1"
    by auto
qed

lemma vector_kept_last:
  assumes "keys \<noteq> []"
  shows "vector_kept keys =
     (if 1 < length keys \<and>
         equalsFuzzy (vk_mValue (keys ! (length keys - 2))) (vk_mValue (keys ! (length keys - 1)))
           epsilon
      then vector_kept_before_last keys
      else vector_kept_before_last keys @ [length keys - 1])"
proof -
  have n: "0 < length keys"
    using assms by simp
  have "foldl (vector_step keys) [] [0 ..< length keys] =
      foldl (vector_step keys) [] ([0 ..< length keys - 1] @ [length keys - 1])"
    by (rule arg_cong [OF upt_last [OF n]])
  then have "vector_kept keys =
      vector_step keys (vector_kept_before_last keys) (length keys - 1)"
    by (simp only: vector_kept_def vector_kept_before_last_def foldl_append foldl.simps)
  then show ?thesis
    by (simp only: vector_step_last [OF assms])
qed

lemma quat_kept_last:
  assumes "keys \<noteq> []"
  shows "quat_kept Interpolate keys =
     (if 1 < length keys \<and>
         equalsFuzzyQ (qk_mValue (keys ! (last (quat_kept_before_last Interpolate keys))))
           (qk_mValue (keys ! (length keys - 1))) epsilon
      then quat_kept_before_last Interpolate keys
      else quat_kept_before_last Interpolate keys @ [length keys - 1])"
proof -
  have n: "0 < length keys"
    using assms by simp
  have "foldl (quat_step Interpolate keys) [] [0 ..< length keys] =
      foldl (quat_step Interpolate keys) [] ([0 ..< length keys - 1] @ [length keys - 1])"
    by (rule arg_cong [OF upt_last [OF n]])
  then have "quat_kept Interpolate keys =
      quat_step Interpolate keys (quat_kept_before_last Interpolate keys) (length keys - 1)"
    by (simp only: quat_kept_def quat_kept_before_last_def foldl_append foldl.simps)
  then show ?thesis
    by (simp only: quat_step_last [OF assms])
qed


text \<open>
  In the rotation loop \<^verbatim>\<open>ar[ar.size()-1]\<close> is read only for a sample after the first,
  when the list already holds index 0.
\<close>

lemma quat_kept_before_last_nonempty:
  "1 < length keys \<Longrightarrow> quat_kept_before_last Interpolate keys \<noteq> []"
  using quat_loop_first [of "length keys - 1" Interpolate keys]
  by (auto simp: quat_kept_before_last_def)

lemma vector_last_retained:
  assumes "keys \<noteq> []"
  shows "length keys - 1 \<in> set (vector_kept keys) \<longleftrightarrow>
     length keys = 1 \<or>
     \<not> equalsFuzzy (vk_mValue (keys ! (length keys - 2))) (vk_mValue (keys ! (length keys - 1)))
         epsilon"
proof -
  have "length keys - 1 \<notin> set (vector_kept_before_last keys)"
    using vector_kept_before_last_bound [of "length keys - 1" keys] by blast
  moreover have "1 < length keys \<or> length keys = 1"
    using assms by (cases keys) auto
  ultimately show ?thesis
    by (auto simp: vector_kept_last [OF assms])
qed

lemma quat_last_retained:
  assumes "keys \<noteq> []"
  shows "length keys - 1 \<in> set (quat_kept Interpolate keys) \<longleftrightarrow>
     length keys = 1 \<or>
     \<not> equalsFuzzyQ (qk_mValue (keys ! (last (quat_kept_before_last Interpolate keys))))
         (qk_mValue (keys ! (length keys - 1))) epsilon"
proof -
  have "length keys - 1 \<notin> set (quat_kept_before_last Interpolate keys)"
    using quat_kept_before_last_bound [of "length keys - 1" Interpolate keys] by blast
  moreover have "1 < length keys \<or> length keys = 1"
    using assms by (cases keys) auto
  ultimately show ?thesis
    by (auto simp: quat_kept_last [OF assms])
qed

text \<open>
  Claim C4, as the code has it: for a track with at least one sample, vector or rotation,
  the first sample is always retained. The last sample is not always retained: both
  loops drop it when it is within epsilon, in every component, of an earlier sample
  that they compare it with. On a rotation track that is the most recently retained
  sample. On a vector track the last sample is retained when it is within epsilon of
  no earlier sample, and dropped when there are earlier samples and it is within
  epsilon of all of them.
\<close>

theorem first_and_last_sample:
  "(keys \<noteq> [] \<longrightarrow>
      hd (vector_kept keys) = 0 \<and>
      ((\<forall>j < length keys - 1.
          \<not> equalsFuzzy (vk_mValue (keys ! j)) (vk_mValue (keys ! (length keys - 1))) epsilon) \<longrightarrow>
         length keys - 1 \<in> set (vector_kept keys)) \<and>
      (1 < length keys \<and>
       (\<forall>j < length keys - 1.
          equalsFuzzy (vk_mValue (keys ! j)) (vk_mValue (keys ! (length keys - 1))) epsilon) \<longrightarrow>
         length keys - 1 \<notin> set (vector_kept keys))) \<and>
   (qkeys \<noteq> [] \<longrightarrow>
      hd (quat_kept Interpolate qkeys) = 0 \<and>
      (length qkeys - 1 \<in> set (quat_kept Interpolate qkeys) \<longleftrightarrow>
         length qkeys = 1 \<or>
         \<not> equalsFuzzyQ (qk_mValue (qkeys ! (last (quat_kept_before_last Interpolate qkeys))))
             (qk_mValue (qkeys ! (length qkeys - 1))) epsilon))"
proof -
  have v1: "length keys - 1 \<in> set (vector_kept keys)"
    if "keys \<noteq> []"
      and "\<forall>j < length keys - 1.
        \<not> equalsFuzzy (vk_mValue (keys ! j)) (vk_mValue (keys ! (length keys - 1))) epsilon"
  proof (cases "length keys = 1")
    case True
    with vector_last_retained [OF that(1)] show ?thesis by blast
  next
    case False
    with that(1) have "length keys - 2 < length keys - 1"
      by (cases keys) auto
    with that(2) have "\<not> equalsFuzzy (vk_mValue (keys ! (length keys - 2)))
        (vk_mValue (keys ! (length keys - 1))) epsilon"
      by blast
    with vector_last_retained [OF that(1)] show ?thesis by blast
  qed
  have v2: "length keys - 1 \<notin> set (vector_kept keys)"
    if "keys \<noteq> []" and "1 < length keys"
      and "\<forall>j < length keys - 1.
        equalsFuzzy (vk_mValue (keys ! j)) (vk_mValue (keys ! (length keys - 1))) epsilon"
  proof -
    from that(2) have "length keys - 2 < length keys - 1"
      by arith
    with that(3) have "equalsFuzzy (vk_mValue (keys ! (length keys - 2)))
        (vk_mValue (keys ! (length keys - 1))) epsilon"
      by blast
    with vector_last_retained [OF that(1)] that(2) show ?thesis by auto
  qed
  show ?thesis
    using v1 v2 vector_kept_first [of keys]
      quat_kept_first [of qkeys Interpolate] quat_last_retained [of qkeys Interpolate]
    by blast
qed

text \<open>Example tracks: a key at time \<open>t\<close> with the value \<open>v\<close> in its first component.\<close>

definition vk :: "real \<Rightarrow> real \<Rightarrow> aiVectorKey" where
  "vk t v = \<lparr>vk_mTime = t, vk_mValue = Float3 v 0 0\<rparr>"

definition qk :: "real \<Rightarrow> real \<Rightarrow> aiQuatKey" where
  "qk t v = \<lparr>qk_mTime = t, qk_mValue = Quat v 0 0 0\<rparr>"

lemma vector_kept_constant_pair: "vector_kept [vk 0 1, vk 1 1] = [0]"
  by (simp add: vector_kept_def vector_step_def vk_def equalsFuzzy_def epsilon_def)

lemma quat_kept_constant_pair: "quat_kept Interpolate [qk 0 1, qk 1 1] = [0]"
  by (simp add: quat_kept_def quat_step_def qk_def equalsFuzzyQ_def epsilon_def)

lemma vector_kept_moving_pair: "vector_kept [vk 0 1, vk 1 2] = [0, 1]"
  by (simp add: vector_kept_def vector_step_def vk_def equalsFuzzy_def epsilon_def)

lemma quat_kept_moving_pair: "quat_kept Interpolate [qk 0 1, qk 1 2] = [0, 1]"
  by (simp add: quat_kept_def quat_step_def qk_def equalsFuzzyQ_def epsilon_def)

theorem first_and_last_sample_witness:
  "[vk 0 1, vk 1 2] \<noteq> [] \<and> hd (vector_kept [vk 0 1, vk 1 2]) = 0 \<and>
   \<not> equalsFuzzy (vk_mValue ([vk 0 1, vk 1 2] ! 0)) (vk_mValue ([vk 0 1, vk 1 2] ! 1)) epsilon \<and>
   length [vk 0 1, vk 1 2] - 1 \<in> set (vector_kept [vk 0 1, vk 1 2]) \<and>
   1 < length [vk 0 1, vk 1 1] \<and>
   equalsFuzzy (vk_mValue ([vk 0 1, vk 1 1] ! 0)) (vk_mValue ([vk 0 1, vk 1 1] ! 1)) epsilon \<and>
   length [vk 0 1, vk 1 1] - 1 \<notin> set (vector_kept [vk 0 1, vk 1 1]) \<and>
   [qk 0 1, qk 1 2] \<noteq> [] \<and> hd (quat_kept (\<lambda>a b f. a) [qk 0 1, qk 1 2]) = 0 \<and>
   length [qk 0 1, qk 1 2] - 1 \<in> set (quat_kept (\<lambda>a b f. a) [qk 0 1, qk 1 2])"
proof -
  have far: "\<not> equalsFuzzy (vk_mValue ([vk 0 1, vk 1 2] ! 0)) (vk_mValue ([vk 0 1, vk 1 2] ! 1))
      epsilon"
    and near: "equalsFuzzy (vk_mValue ([vk 0 1, vk 1 1] ! 0)) (vk_mValue ([vk 0 1, vk 1 1] ! 1))
      epsilon"
    by (simp_all add: vk_def equalsFuzzy_def epsilon_def)
  have "hd (vector_kept [vk 0 1, vk 1 2]) = 0"
    "length [vk 0 1, vk 1 2] - 1 \<in> set (vector_kept [vk 0 1, vk 1 2])"
    "hd (quat_kept (\<lambda>a b f. a) [qk 0 1, qk 1 2]) = 0"
    using first_and_last_sample [of "[vk 0 1, vk 1 2]" "[qk 0 1, qk 1 2]" "\<lambda>a b f. a"] far
    by simp_all
  moreover have "length [vk 0 1, vk 1 1] - 1 \<notin> set (vector_kept [vk 0 1, vk 1 1])"
    using first_and_last_sample [of "[vk 0 1, vk 1 1]" "[qk 0 1, qk 1 2]" "\<lambda>a b f. a"] near
    by simp
  ultimately show ?thesis
    using far near by (simp add: quat_kept_moving_pair)
qed

text \<open>
  The claim as the specification words it (the last sample is always retained) fails
  on a track of two equal samples, for a vector track and for a rotation track: only
  sample 0 is retained.
\<close>

theorem first_and_last_sample_counterexample:
  "length [vk 0 1, vk 1 1] - 1 \<notin> set (vector_kept [vk 0 1, vk 1 1]) \<and>
   length [qk 0 1, qk 1 1] - 1 \<notin> set (quat_kept (\<lambda>a b f. a) [qk 0 1, qk 1 1])"
  by (simp add: vector_kept_constant_pair quat_kept_constant_pair)

subsection \<open>The neighbours of an interior sample\<close>

text \<open>
  The rule of the specification for an interior sample, on a vector track: the
  prediction is interpolated between the most recently retained sample and the raw
  next sample. This is the rule of \<open>quat_step\<close>, written for vectors.
\<close>

definition spec_vector_step :: "aiVectorKey list \<Rightarrow> nat list \<Rightarrow> nat \<Rightarrow> nat list" where
  "spec_vector_step keys ar i =
     (let count = length keys; k = keys ! i in
      if 0 < i \<and> i < count - 1 then
        (let prev = keys ! (last ar);
             from = vk_mValue prev;
             to = vk_mValue (keys ! (i + 1));
             span = vk_mTime (keys ! (i + 1)) - vk_mTime prev
         in if span \<noteq> 0 \<and>
               equalsFuzzy (interp from to ((vk_mTime k - vk_mTime prev) / span))
                 (vk_mValue k) epsilon
            then ar else ar @ [i])
      else if i = count - 1 \<and> 0 < i \<and>
              equalsFuzzy (vk_mValue (keys ! (last ar))) (vk_mValue k) epsilon
      then ar
      else ar @ [i])"

definition spec_vector_kept :: "aiVectorKey list \<Rightarrow> nat list" where
  "spec_vector_kept keys = foldl (spec_vector_step keys) [] [0 ..< length keys]"

text \<open>
  A position track that accelerates slowly: samples at times 0, 1, 2, 3 with the
  values 0, 0.000006, 0.000024 and 0.000054.
\<close>

definition drift_track :: "aiVectorKey list" where
  "drift_track = [vk 0 0, vk 1 0.000006, vk 2 0.000024, vk 3 0.000054]"

text \<open>
  Claim C5 on the drift track. \<^verbatim>\<open>writeVectorArray\<close> drops sample 1 and then tests
  sample 2 against the interpolation between the dropped sample 1 and sample 3, and
  drops it too: it retains samples 0 and 3. Sample 2 is not within epsilon of the value
  interpolated between the retained sample 0 and sample 3 at the time fraction 2/3, so
  the rule of the claim retains it.
\<close>

theorem vector_track_uses_raw_previous:
  "vector_kept drift_track = [0, 3] \<and>
   \<not> equalsFuzzy (interp (vk_mValue (drift_track ! 0)) (vk_mValue (drift_track ! 3))
        ((vk_mTime (drift_track ! 2) - vk_mTime (drift_track ! 0)) /
         (vk_mTime (drift_track ! 3) - vk_mTime (drift_track ! 0))))
      (vk_mValue (drift_track ! 2)) epsilon \<and>
   spec_vector_kept drift_track = [0, 2, 3]"
  by (simp add: drift_track_def vector_kept_def vector_step_def spec_vector_kept_def
      spec_vector_step_def vk_def equalsFuzzy_def interp_def epsilon_def)


section \<open>Binary emitter: animation blocks (Main.cpp, loadAnimation)\<close>

text \<open>
  The output stream is the sequence of values written, each with its width. A float is
  written as its four bytes, which are not modelled further.
\<close>

datatype token =
  WByte "8 word" | WShort "16 word" | WInt "32 word" | WFloat real | WChars string

definition writeUTF :: "string \<Rightarrow> token list" where
  "writeUTF s =
     (let len = (of_nat (length s) :: 16 word) in [WShort len, WChars (take (unat len) s)])"

definition writeVectorArray :: "aiVectorKey list \<Rightarrow> token list" where
  "writeVectorArray keys =
     (let ar = vector_kept keys
      in WInt (of_nat (length ar * 4)) #
         concat (map (\<lambda>i. let k = keys ! i
                          in [WFloat (vk_mTime k), WFloat (f3x (vk_mValue k)),
                              WFloat (f3y (vk_mValue k)), WFloat (f3z (vk_mValue k))]) ar))"

definition writeQuatArray ::
  "(aiQuaternion \<Rightarrow> aiQuaternion \<Rightarrow> real \<Rightarrow> aiQuaternion) \<Rightarrow> aiQuatKey list \<Rightarrow> token list" where
  "writeQuatArray Interpolate keys =
     (let ar = quat_kept Interpolate keys
      in WInt (of_nat (length ar * 5)) #
         concat (map (\<lambda>i. let k = keys ! i
                          in [WFloat (qk_mTime k), WFloat (qw (qk_mValue k)),
                              WFloat (qx (qk_mValue k)), WFloat (qy (qk_mValue k)),
                              WFloat (qz (qk_mValue k))]) ar))"

text \<open>
  The body of the channel loop (lines 207 to 214): nothing is written for a channel whose
  node name is not in the map; otherwise the record of the channel is written.
\<close>

definition channel_record ::
  "bool \<Rightarrow> (aiQuaternion \<Rightarrow> aiQuaternion \<Rightarrow> real \<Rightarrow> aiQuaternion) \<Rightarrow> (string \<rightharpoonup> nat) \<Rightarrow>
   aiNodeAnim \<Rightarrow> token list option" where
  "channel_record NO_SCALE Interpolate name_map n =
     (case name_map (mNodeName n) of
        None \<Rightarrow> None
      | Some it \<Rightarrow>
          Some (WShort (of_nat it) #
            writeVectorArray (mPositionKeys n) @
            writeQuatArray Interpolate (mRotationKeys n) @
            (if NO_SCALE then [WInt 4, WFloat 0, WFloat 1, WFloat 1, WFloat 1]
             else writeVectorArray (mScalingKeys n))))"

text \<open>The three writes before the loop (lines 204 and 205); the last is the channel count.\<close>

definition animation_header :: "aiAnimation \<Rightarrow> token list" where
  "animation_header anim =
     writeUTF (anim_mName anim) @
     [WFloat (mDuration anim), WInt (of_nat (length (mChannels anim)))]"

definition channel_records ::
  "bool \<Rightarrow> (aiQuaternion \<Rightarrow> aiQuaternion \<Rightarrow> real \<Rightarrow> aiQuaternion) \<Rightarrow> (string \<rightharpoonup> nat) \<Rightarrow>
   aiAnimation \<Rightarrow> token list list" where
  "channel_records NO_SCALE Interpolate name_map anim =
     List.map_filter (channel_record NO_SCALE Interpolate name_map) (mChannels anim)"

definition loadAnimation ::
  "bool \<Rightarrow> (aiQuaternion \<Rightarrow> aiQuaternion \<Rightarrow> real \<Rightarrow> aiQuaternion) \<Rightarrow> (string \<rightharpoonup> nat) \<Rightarrow>
   aiAnimation \<Rightarrow> token list" where
  "loadAnimation NO_SCALE Interpolate name_map anim =
     animation_header anim @ concat (channel_records NO_SCALE Interpolate name_map anim)"

definition channelCount :: "aiAnimation \<Rightarrow> token" where
  "channelCount anim = last (animation_header anim)"

lemma channelCount_eq: "channelCount anim = WInt (of_nat (length (mChannels anim)))"
  by (simp add: channelCount_def animation_header_def)

lemma length_channel_records:
  "length (channel_records NO_SCALE Interpolate name_map anim) =
     length (filter (\<lambda>n. name_map (mNodeName n) \<noteq> None) (mChannels anim))"
proof -
  have "(channel_record NO_SCALE Interpolate name_map n \<noteq> None) =
      (name_map (mNodeName n) \<noteq> None)" for n
    by (simp add: channel_record_def split: option.splits)
  then show ?thesis
    by (simp add: channel_records_def map_filter_def)
qed

text \<open>
  An animation of the animated triangle scene with one channel that targets the node
  \<open>tri\<close>, while the map knows only the node \<open>root\<close>.
\<close>

definition stray_channel :: aiNodeAnim where
  "stray_channel =
     \<lparr>mNodeName = ''tri'', mPositionKeys = [vk 0 0], mRotationKeys = [qk 0 1],
      mScalingKeys = [vk 0 1]\<rparr>"

definition stray_animation :: aiAnimation where
  "stray_animation = \<lparr>anim_mName = ''idle'', mDuration = 1, mChannels = [stray_channel]\<rparr>"

text \<open>
  Claim C1 on the stray animation: the channel is dropped, so no channel record is
  written, and the channel count written before the loop is 1.
\<close>

theorem channel_count_counts_dropped_channels:
  "[''root'' \<mapsto> 0] (mNodeName stray_channel) = None \<and>
   channelCount stray_animation = WInt 1 \<and>
   channel_records False Interpolate [''root'' \<mapsto> 0] stray_animation = [] \<and>
   loadAnimation False Interpolate [''root'' \<mapsto> 0] stray_animation =
     [WShort 4, WChars ''idle'', WFloat 1, WInt 1]"
  by (simp add: channelCount_eq loadAnimation_def animation_header_def channel_records_def
      channel_record_def map_filter_def stray_animation_def stray_channel_def writeUTF_def)

section \<open>Numeric codec: the 16-bit float (ieee754_2008.h)\<close>

text \<open>
  The encoder's argument is a 32-bit float. Its claims are about NaN, the infinities and
  the sign bit, so the argument is modelled by what its bits denote: a NaN or an
  infinity with its sign bit, or a finite value with its sign bit, written
  \<open>Finite s m k\<close> for the magnitude \<open>m * 2^k\<close>. \<open>float_of_bits\<close> reads a bit pattern
  by the three bit-fields of the union \<^verbatim>\<open>IEEE754_float\<close>: 23 bits of mantissa, 8 bits
  of exponent, 1 sign bit.
\<close>

datatype float32 = NaN bool | Infinity bool | Finite bool nat int

fun bit_length :: "nat \<Rightarrow> nat" where
  "bit_length n = (if n = 0 then 0 else Suc (bit_length (n div 2)))"

declare bit_length.simps [simp del]

definition float_of_bits :: "32 word \<Rightarrow> float32" where
  "float_of_bits w =
     (let sign = (unat w div 2 ^ 31 = 1);
          e = unat w div 2 ^ 23 mod 2 ^ 8;
          mantissa = unat w mod 2 ^ 23
      in if e = 255 then (if mantissa \<noteq> 0 then NaN sign else Infinity sign)
         else if e = 0 then Finite sign mantissa (- 149)
         else Finite sign (mantissa + 2 ^ 23) (int e - 150))"

text \<open>
  The operations that \<^verbatim>\<open>convertToIEEE754\<close> applies to its argument: the comparison
  \<^verbatim>\<open>val < 0\<close> (false for a NaN and for both zeros), the negation \<^verbatim>\<open>-val\<close>, the test
  \<^verbatim>\<open>val != val\<close> (true for a NaN only) and the comparison with 0.
\<close>

fun less_zero :: "float32 \<Rightarrow> bool" where
  "less_zero (NaN s) = False"
| "less_zero (Infinity s) = s"
| "less_zero (Finite s m k) = (s \<and> m \<noteq> 0)"

fun negate :: "float32 \<Rightarrow> float32" where
  "negate (NaN s) = NaN (\<not> s)"
| "negate (Infinity s) = Infinity (\<not> s)"
| "negate (Finite s m k) = Finite (\<not> s) m k"

fun is_nan :: "float32 \<Rightarrow> bool" where
  "is_nan (NaN s) = True"
| "is_nan v = False"

fun is_zero :: "float32 \<Rightarrow> bool" where
  "is_zero (Finite s m k) = (m = 0)"
| "is_zero v = False"

fun sign_bit :: "float32 \<Rightarrow> bool" where
  "sign_bit (NaN s) = s"
| "sign_bit (Infinity s) = s"
| "sign_bit (Finite s m k) = s"

text \<open>The union \<^verbatim>\<open>IEEE754_half\<close>: 10 bits of mantissa, 5 bits of exponent, 1 sign bit.\<close>

record IEEE754_half =
  h_mantissa :: "10 word"
  h_e :: "5 word"
  h_sign :: bool

definition MANTISSA :: int where "MANTISSA = 10"
definition E_MIN :: int where "E_MIN = - 14"
definition E_MAX :: int where "E_MAX = 15"
definition E_NAN :: int where "E_NAN = 31"

definition clamp :: "int \<Rightarrow> int \<Rightarrow> int \<Rightarrow> int" where
  "clamp e l h = (if e > l then (if e > h then h else e) else l)"

text \<open>
  \<^verbatim>\<open>frexp\<close> splits a positive finite value \<open>m * 2^k\<close> into a fraction in [1/2, 1) and
  the exponent \<open>k + bit_length m\<close>. \<^verbatim>\<open>ldexp\<close> of that fraction by \<open>n\<close> is
  \<open>m * 2^(n - bit_length m)\<close>, which the float holds exactly for every \<open>n\<close> the encoder
  passes; \<open>ldexp_trunc\<close> is its integer part, which the cast to the 16-bit unsigned
  integer takes.
\<close>

definition frexp_exponent :: "nat \<Rightarrow> int \<Rightarrow> int" where
  "frexp_exponent m k = k + int (bit_length m)"

definition ldexp_trunc :: "nat \<Rightarrow> int \<Rightarrow> nat" where
  "ldexp_trunc m n =
     (let shift = n - int (bit_length m)
      in if 0 \<le> shift then m * 2 ^ nat shift else m div 2 ^ nat (- shift))"

text \<open>
  \<^verbatim>\<open>convertToIEEE754<IEEE754_half>(float val)\<close>. Every path assigns the three bit-fields;
  an assignment to a bit-field keeps the low bits. The cast of a float of 65536 or more
  to a 16-bit unsigned integer is undefined in C++: the result is \<open>None\<close> there.
\<close>

definition convertToIEEE754 :: "float32 \<Rightarrow> IEEE754_half option" where
  "convertToIEEE754 val0 =
     (let sign = less_zero val0;
          val = (if sign then negate val0 else val0)
      in if is_nan val then Some \<lparr>h_mantissa = word_of_int 0xFFFFFFFFFFFFFFFF, h_e = word_of_int E_NAN, h_sign = sign\<rparr>
         else if val = Infinity False then Some \<lparr>h_mantissa = 0, h_e = word_of_int E_NAN, h_sign = sign\<rparr>
         else if is_zero val then Some \<lparr>h_mantissa = 0, h_e = 0, h_sign = sign\<rparr>
         else (case val of
            Finite s m k \<Rightarrow>
              (let e = frexp_exponent m k;
                   exp = clamp e E_MIN E_MAX;
                   scaled = ldexp_trunc m (MANTISSA + (if exp \<noteq> E_MIN then 1 else 0) + e - exp)
               in if 65536 \<le> scaled then None
                  else Some \<lparr>h_mantissa = of_nat scaled, h_e = word_of_int (exp - E_MIN), h_sign = sign\<rparr>)
          | _ \<Rightarrow> None))"

text \<open>\<^verbatim>\<open>convertToFloat\<close>; \<^verbatim>\<open>FLT_NAN(float)\<close> is the quiet NaN with a clear sign bit.\<close>

definition convertToFloat :: "IEEE754_half \<Rightarrow> float32" where
  "convertToFloat val =
     (if uint (h_e val) = E_NAN
      then (if h_mantissa val \<noteq> 0 then NaN False else Infinity (h_sign val))
      else let ret = (if h_e val = 0
                      then Finite False (unat (h_mantissa val)) (E_MIN - MANTISSA)
                      else Finite False (unat (h_mantissa val) + 2 ^ nat MANTISSA)
                             (uint (h_e val) + E_MIN - MANTISSA - 1))
           in if h_sign val then negate ret else ret)"




lemma encode_NaN:
  "convertToIEEE754 (NaN s) = Some \<lparr>h_mantissa = 1023, h_e = 31, h_sign = False\<rparr>"
  by (simp add: convertToIEEE754_def E_NAN_def)

lemma encode_Infinity:
  "convertToIEEE754 (Infinity s) = Some \<lparr>h_mantissa = 0, h_e = 31, h_sign = s\<rparr>"
  by (simp add: convertToIEEE754_def E_NAN_def)

lemma encode_zero:
  "convertToIEEE754 (Finite s 0 k) = Some \<lparr>h_mantissa = 0, h_e = 0, h_sign = False\<rparr>"
  by (simp add: convertToIEEE754_def)

lemma decode_NaN:
  "convertToFloat \<lparr>h_mantissa = 1023, h_e = 31, h_sign = False\<rparr> = NaN False"
  by (simp add: convertToFloat_def E_NAN_def)

lemma decode_Infinity:
  "convertToFloat \<lparr>h_mantissa = 0, h_e = 31, h_sign = s\<rparr> = Infinity s"
  by (simp add: convertToFloat_def E_NAN_def)

lemma encode_Finite:
  assumes "m \<noteq> 0"
  shows "convertToIEEE754 (Finite s m k) =
     (let e = frexp_exponent m k;
          exp = clamp e E_MIN E_MAX;
          scaled = ldexp_trunc m (MANTISSA + (if exp \<noteq> E_MIN then 1 else 0) + e - exp)
      in if 65536 \<le> scaled then None
         else Some \<lparr>h_mantissa = of_nat scaled, h_e = word_of_int (exp - E_MIN), h_sign = s\<rparr>)"
  using assms by (cases s) (simp_all add: convertToIEEE754_def Let_def)

lemma less_bit_length: "m < 2 ^ bit_length m"
proof (induction m rule: bit_length.induct)
  case (1 n)
  show ?case
  proof (cases "n = 0")
    case True
    then show ?thesis by (simp add: bit_length.simps)
  next
    case False
    with 1 have "n div 2 < 2 ^ bit_length (n div 2)" by simp
    then have "n < 2 * 2 ^ bit_length (n div 2)" by arith
    with False show ?thesis by (simp add: bit_length.simps [of n])
  qed
qed

lemma ldexp_trunc_less: "ldexp_trunc m n < 2 ^ nat n"
proof (cases "0 \<le> n - int (bit_length m)")
  case True
  then have n: "nat n = bit_length m + nat (n - int (bit_length m))"
    by simp
  have "m * 2 ^ nat (n - int (bit_length m)) <
      2 ^ bit_length m * 2 ^ nat (n - int (bit_length m))"
    using less_bit_length [of m] by simp
  then show ?thesis
    using True by (simp add: ldexp_trunc_def n power_add)
next
  case False
  have "m < 2 ^ bit_length m"
    by (rule less_bit_length)
  also have "(2::nat) ^ bit_length m \<le> 2 ^ nat (int (bit_length m) - n) * 2 ^ nat n"
  proof -
    have "bit_length m \<le> nat (int (bit_length m) - n) + nat n" by arith
    then have "(2::nat) ^ bit_length m \<le> 2 ^ (nat (int (bit_length m) - n) + nat n)"
      by (rule power_increasing) simp
    then show ?thesis by (simp add: power_add)
  qed
  finally have "m div 2 ^ nat (int (bit_length m) - n) < 2 ^ nat n"
    by (simp add: less_mult_imp_div_less mult.commute)
  with False show ?thesis
    by (simp add: ldexp_trunc_def Let_def)
qed

lemma scaled_in_range:
  assumes "e \<le> 20"
  shows "ldexp_trunc m (MANTISSA + (if clamp e E_MIN E_MAX \<noteq> E_MIN then 1 else 0) + e -
      clamp e E_MIN E_MAX) < 65536"
proof -
  let ?n = "MANTISSA + (if clamp e E_MIN E_MAX \<noteq> E_MIN then 1 else 0) + e -
      clamp e E_MIN E_MAX"
  have "?n \<le> 16"
    using assms by (auto simp: clamp_def MANTISSA_def E_MIN_def E_MAX_def)
  then have "nat ?n \<le> 16" by simp
  then have "(2::nat) ^ nat ?n \<le> 2 ^ 16"
    by (rule power_increasing) simp
  with ldexp_trunc_less [of m ?n] show ?thesis by simp
qed

lemma encode_Finite_sign:
  "m \<noteq> 0 \<Longrightarrow> convertToIEEE754 (Finite s m k) = Some h \<Longrightarrow> h_sign h = s"
  by (auto simp: encode_Finite Let_def split: if_splits)

lemma encode_Finite_defined:
  "m \<noteq> 0 \<Longrightarrow> frexp_exponent m k \<le> 20 \<Longrightarrow> convertToIEEE754 (Finite s m k) \<noteq> None"
  using scaled_in_range [of "frexp_exponent m k" m]
  by (simp add: encode_Finite Let_def)


lemma float_of_bits_examples:
  "float_of_bits 0xFFC00000 = NaN True"
  "float_of_bits 0xFF800000 = Infinity True"
  "float_of_bits 0x80000000 = Finite True 0 (- 149)"
  "float_of_bits 0xBF800000 = Finite True 8388608 (- 23)"
  by (simp_all add: float_of_bits_def)

lemma bit_length_8388608: "bit_length 8388608 = 24"
  by (simp add: bit_length.simps)

lemma encode_minus_one:
  "convertToIEEE754 (float_of_bits 0xBF800000) = Some \<lparr>h_mantissa = 0, h_e = 15, h_sign = True\<rparr>"
  by (simp add: float_of_bits_examples encode_Finite frexp_exponent_def ldexp_trunc_def
      bit_length_8388608 clamp_def E_MIN_def E_MAX_def MANTISSA_def)

text \<open>
  Claim C9, as the code has it, for every bit pattern \<open>w\<close> of a 32-bit float. A NaN
  encodes with the exponent field 31, all 10 mantissa bits set and a clear sign bit,
  whatever its own sign bit, and decodes to NaN. An infinity encodes with the exponent
  field 31, a zero mantissa and its own sign bit, and decodes to the infinity of that
  sign. A finite input other than zero, whenever the encoder's cast is defined (and it
  is for a magnitude below 2^20), encodes with its own sign bit.
\<close>

theorem half_float_special_values:
  "(float_of_bits w = NaN s \<longrightarrow>
      convertToIEEE754 (float_of_bits w) = Some \<lparr>h_mantissa = 1023, h_e = 31, h_sign = False\<rparr> \<and>
      convertToFloat \<lparr>h_mantissa = 1023, h_e = 31, h_sign = False\<rparr> = NaN False) \<and>
   (float_of_bits w = Infinity s \<longrightarrow>
      convertToIEEE754 (float_of_bits w) = Some \<lparr>h_mantissa = 0, h_e = 31, h_sign = s\<rparr> \<and>
      convertToFloat \<lparr>h_mantissa = 0, h_e = 31, h_sign = s\<rparr> = Infinity s) \<and>
   (float_of_bits w = Finite s m k \<and> m \<noteq> 0 \<longrightarrow>
      (frexp_exponent m k \<le> 20 \<longrightarrow> convertToIEEE754 (float_of_bits w) \<noteq> None) \<and>
      (\<forall>h. convertToIEEE754 (float_of_bits w) = Some h \<longrightarrow> h_sign h = s))"
  using encode_Finite_sign [of m s k] encode_Finite_defined [of m k s]
  by (auto simp: encode_NaN encode_Infinity decode_NaN decode_Infinity)

theorem half_float_special_values_witness:
  "float_of_bits 0xFFC00000 = NaN True \<and>
   convertToIEEE754 (float_of_bits 0xFFC00000) =
     Some \<lparr>h_mantissa = 1023, h_e = 31, h_sign = False\<rparr> \<and>
   float_of_bits 0xFF800000 = Infinity True \<and>
   convertToIEEE754 (float_of_bits 0xFF800000) =
     Some \<lparr>h_mantissa = 0, h_e = 31, h_sign = True\<rparr> \<and>
   convertToFloat \<lparr>h_mantissa = 0, h_e = 31, h_sign = True\<rparr> = Infinity True \<and>
   float_of_bits 0xBF800000 = Finite True 8388608 (- 23) \<and>
   frexp_exponent 8388608 (- 23) \<le> 20 \<and>
   convertToIEEE754 (float_of_bits 0xBF800000) =
     Some \<lparr>h_mantissa = 0, h_e = 15, h_sign = True\<rparr>"
proof -
  have a: "float_of_bits 0xFFC00000 = NaN True"
    and b: "float_of_bits 0xFF800000 = Infinity True"
    and c: "float_of_bits 0xBF800000 = Finite True 8388608 (- 23)"
    by (rule float_of_bits_examples)+
  have d: "frexp_exponent 8388608 (- 23) \<le> 20"
    by (simp add: frexp_exponent_def bit_length_8388608)
  from half_float_special_values [of "0xFFC00000" True] a
  have "convertToIEEE754 (float_of_bits 0xFFC00000) =
      Some \<lparr>h_mantissa = 1023, h_e = 31, h_sign = False\<rparr>"
    by blast
  moreover from half_float_special_values [of "0xFF800000" True] b
  have "convertToIEEE754 (float_of_bits 0xFF800000) =
      Some \<lparr>h_mantissa = 0, h_e = 31, h_sign = True\<rparr> \<and>
    convertToFloat \<lparr>h_mantissa = 0, h_e = 31, h_sign = True\<rparr> = Infinity True"
    by blast
  moreover from half_float_special_values [of "0xBF800000" True 8388608 "- 23"] c d
  have "convertToIEEE754 (float_of_bits 0xBF800000) \<noteq> None"
    by simp
  ultimately show ?thesis
    using a b c d encode_minus_one by simp
qed

text \<open>
  The claim as the specification words it (the sign bit of the encoding equals the sign
  bit of the input, also for NaN and signed zero) fails for the NaN with the bit pattern
  FFC00000 and for the negative zero 80000000: both have their sign bit set and encode
  with a clear sign bit, because the encoder takes the sign from \<^verbatim>\<open>val < 0\<close>.
\<close>

theorem half_float_sign_counterexample:
  "float_of_bits 0xFFC00000 = NaN True \<and>
   sign_bit (float_of_bits 0xFFC00000) \<and>
   convertToIEEE754 (float_of_bits 0xFFC00000) =
     Some \<lparr>h_mantissa = 1023, h_e = 31, h_sign = False\<rparr> \<and>
   float_of_bits 0x80000000 = Finite True 0 (- 149) \<and>
   sign_bit (float_of_bits 0x80000000) \<and>
   convertToIEEE754 (float_of_bits 0x80000000) =
     Some \<lparr>h_mantissa = 0, h_e = 0, h_sign = False\<rparr>"
  by (simp add: float_of_bits_examples encode_NaN encode_zero)

section \<open>Mesh passes (Main.cpp, getVertexCount, loadMesh and generateMesh)\<close>

subsection \<open>The counting pass\<close>

text \<open>
  \<^verbatim>\<open>getVertexCount\<close> adds up the vertices and indices of the meshes it does not skip and
  records the index range of each in the global list \<^verbatim>\<open>meshes\<close>. The scene's mesh array
  is read at the index a node gives; the importer guarantees that the index is valid.
\<close>

record MeshSubset =
  subset_name :: string
  subset_start :: nat
  subset_end :: nat

record count_state =
  meshes :: "MeshSubset list"
  vcount :: nat
  icount :: nat




subsection \<open>The floats of the vertex buffer (vec.h)\<close>

text \<open>
  The bone channels hold \<^verbatim>\<open>float\<close> values that the emission pass compares, adds and
  divides. A finite float is modelled by the real number it denotes: rounding and
  overflow are not modelled, and zero has no sign. The infinities and NaN are values of
  their own, because the division of line 126 yields them from finite operands when
  its divisor is 0.
\<close>

datatype cfloat = Num real | PosInf | NegInf | NotNum

text \<open>\<^verbatim>\<open>operator+\<close> of two floats.\<close>

fun fadd :: "cfloat \<Rightarrow> cfloat \<Rightarrow> cfloat" where
  "fadd (Num a) (Num b) = Num (a + b)"
| "fadd NotNum y = NotNum"
| "fadd x NotNum = NotNum"
| "fadd PosInf NegInf = NotNum"
| "fadd NegInf PosInf = NotNum"
| "fadd PosInf y = PosInf"
| "fadd x PosInf = PosInf"
| "fadd NegInf y = NegInf"
| "fadd x NegInf = NegInf"

text \<open>
  \<^verbatim>\<open>operator/\<close> of two floats. A non-zero number divided by zero is an infinity with
  the sign of the dividend, and zero divided by zero is NaN. The zero divisor is taken
  as +0: the only divisor of the emission pass is the sum of line 126, whose first term
  is not zero, and under round-to-nearest such a sum is never -0.
\<close>

fun fdiv :: "cfloat \<Rightarrow> cfloat \<Rightarrow> cfloat" where
  "fdiv (Num a) (Num b) =
     (if b \<noteq> 0 then Num (a / b)
      else if a = 0 then NotNum else if 0 < a then PosInf else NegInf)"
| "fdiv NotNum y = NotNum"
| "fdiv x NotNum = NotNum"
| "fdiv (Num a) y = Num 0"
| "fdiv PosInf (Num b) = (if 0 \<le> b then PosInf else NegInf)"
| "fdiv NegInf (Num b) = (if 0 \<le> b then NegInf else PosInf)"
| "fdiv x y = NotNum"

datatype float4 = Float4 (f4x: cfloat) (f4y: cfloat) (f4z: cfloat) (f4w: cfloat)

text \<open>\<^verbatim>\<open>float4::make\<close> on four numbers.\<close>

definition float4_make :: "real \<Rightarrow> real \<Rightarrow> real \<Rightarrow> real \<Rightarrow> float4" where
  "float4_make x y z w = Float4 (Num x) (Num y) (Num z) (Num w)"

subsection \<open>The emission pass\<close>

text \<open>
  The state of the emission pass. Of the vertex buffer the model keeps the cells of the
  two bone channels (zero at allocation, like the whole buffer) and the list of the
  (vertex, attribute) pairs of all calls of \<^verbatim>\<open>vertices.set\<close>, in order; of the index
  buffer the list of the (slot, value) pairs of all calls of \<^verbatim>\<open>indices.set\<close>. The values
  written to the position, normal and texture coordinate channels, the bounding box and
  the matrices of the bones are products of the importer's matrix routines and are not
  modelled. \<open>bindex\<close> is the bone counter that the source calls \<^verbatim>\<open>index\<close>; \<open>bones\<close> maps
  a bone name to the id of its \<^verbatim>\<open>Bone\<close>.
\<close>

record mesh_state =
  bone_idx :: "nat \<Rightarrow> float4"
  bone_weight :: "nat \<Rightarrow> float4"
  vwrites :: "(nat \<times> nat) list"
  iwrites :: "(nat \<times> nat) list"
  voff :: nat
  ioff :: nat
  bindex :: nat
  bones :: "string \<rightharpoonup> nat"

text \<open>
  \<^verbatim>\<open>vertices.get\<close> and \<^verbatim>\<open>vertices.set\<close>. Both bone channels hold four floats, so what
  is stored is what is read back. \<^verbatim>\<open>get\<close> is called on the two bone channels only.
\<close>

definition vertices_get :: "mesh_state \<Rightarrow> nat \<Rightarrow> nat \<Rightarrow> float4" where
  "vertices_get st vertex attribute =
     (if attribute = BONE_IDX then bone_idx st vertex else bone_weight st vertex)"

definition vertices_set :: "nat \<Rightarrow> nat \<Rightarrow> float4 \<Rightarrow> mesh_state \<Rightarrow> mesh_state" where
  "vertices_set vertex attribute val st =
     (let st = st\<lparr>vwrites := vwrites st @ [(vertex, attribute)]\<rparr> in
      if attribute = BONE_IDX then st\<lparr>bone_idx := (bone_idx st)(vertex := val)\<rparr>
      else if attribute = BONE_WEIGHT then st\<lparr>bone_weight := (bone_weight st)(vertex := val)\<rparr>
      else st)"

text \<open>A call of \<^verbatim>\<open>vertices.set\<close> on a channel whose values are not modelled.\<close>

definition vertices_touch :: "nat \<Rightarrow> nat \<Rightarrow> mesh_state \<Rightarrow> mesh_state" where
  "vertices_touch vertex attribute st = st\<lparr>vwrites := vwrites st @ [(vertex, attribute)]\<rparr>"

definition indices_set :: "nat \<Rightarrow> nat \<Rightarrow> mesh_state \<Rightarrow> mesh_state" where
  "indices_set i val st = st\<lparr>iwrites := iwrites st @ [(i, val)]\<rparr>"

text \<open>\<^verbatim>\<open>operator[]\<close> of a four-component vector, reading and writing.\<close>

fun comp :: "float4 \<Rightarrow> nat \<Rightarrow> cfloat" where
  "comp (Float4 x y z w) c = (if c = 0 then x else if c = 1 then y else if c = 2 then z else w)"

fun set_comp :: "float4 \<Rightarrow> nat \<Rightarrow> cfloat \<Rightarrow> float4" where
  "set_comp (Float4 x y z w) c v =
     (if c = 0 then Float4 v y z w else if c = 1 then Float4 x v z w
      else if c = 2 then Float4 x y v w else Float4 x y z v)"

text \<open>
  The slot search of line 112: the first of the slots 0 to 3 whose weight is 0 or whose
  bone index equals \<^verbatim>\<open>bidx\<close>; 4 when there is none. The bone index is stored as a float
  and compared with \<^verbatim>\<open>bidx\<close> converted to float; the conversion is exact below 2^24.
\<close>

definition find_slot :: "float4 \<Rightarrow> float4 \<Rightarrow> nat \<Rightarrow> nat" where
  "find_slot idx wt bidx =
     (case find (\<lambda>c. comp wt c = Num 0 \<or> comp idx c = Num (real bidx)) [0, 1, 2, 3] of
        Some c \<Rightarrow> c
      | None \<Rightarrow> 4)"

text \<open>The body of the loop over the weights of a bone (lines 108 to 116).\<close>

definition add_weight :: "nat \<Rightarrow> mesh_state \<Rightarrow> aiVertexWeight \<Rightarrow> mesh_state" where
  "add_weight bidx st vw =
     (let vertex = voff st + mVertexId vw;
          idx = vertices_get st vertex BONE_IDX;
          wt = vertices_get st vertex BONE_WEIGHT;
          minidx = find_slot idx wt bidx
      in if 4 \<le> minidx then st
         else vertices_set vertex BONE_WEIGHT (set_comp wt minidx (Num (mWeight vw)))
                (vertices_set vertex BONE_IDX (set_comp idx minidx (Num (real bidx))) st))"

text \<open>
  \<^verbatim>\<open>getNodeBone\<close> (lines 57 to 64) looks a bone up by name and creates it with the next
  id if it is missing. The lookup for a bone of the mesh (lines 101 to 106) is the same
  but for the matrix it stores.
\<close>

definition getNodeBone :: "string \<Rightarrow> mesh_state \<Rightarrow> nat \<times> mesh_state" where
  "getNodeBone name st =
     (case bones st name of
        None \<Rightarrow> (bindex st, st\<lparr>bindex := bindex st + 1, bones := (bones st)(name \<mapsto> bindex st)\<rparr>)
      | Some b \<Rightarrow> (b, st))"


text \<open>
  \<^verbatim>\<open>wt /= s\<close> divides every component by \<open>s\<close> (vec.h, line 315); the divisor of line
  126 is \<^verbatim>\<open>wt.x+wt.y+wt.z+wt.w\<close>, added from left to right.
\<close>

definition div4 :: "float4 \<Rightarrow> cfloat \<Rightarrow> float4" where
  "div4 v s = Float4 (fdiv (f4x v) s) (fdiv (f4y v) s) (fdiv (f4z v) s) (fdiv (f4w v) s)"

definition sum4 :: "float4 \<Rightarrow> cfloat" where
  "sum4 v = fadd (fadd (fadd (f4x v) (f4y v)) (f4z v)) (f4w v)"

text \<open>The body of the loop over the vertices after the bones (lines 119 to 127).\<close>

definition bind_vertex :: "string \<Rightarrow> mesh_state \<Rightarrow> nat \<Rightarrow> mesh_state" where
  "bind_vertex name st i =
     (let wt = vertices_get st (voff st + i) BONE_WEIGHT in
      if f4x wt = Num 0 then
        (let (default_bone, st) = getNodeBone (name @ ''_auto'') st;
             st = vertices_set (voff st + i) BONE_WEIGHT (set_comp wt 0 (Num 1)) st;
             st = vertices_set (voff st + i) BONE_IDX (float4_make (real default_bone) 0 0 0) st
         in vertices_set (voff st + i) BONE_WEIGHT (float4_make 1 0 0 0) st)
      else vertices_set (voff st + i) BONE_WEIGHT (div4 wt (sum4 wt)) st)"


text \<open>The bodies of the vertex loop (lines 82 to 91) and of the face loop (lines 94 and 95).\<close>

definition load_vertex :: "aiMesh \<Rightarrow> mesh_state \<Rightarrow> nat \<Rightarrow> mesh_state" where
  "load_vertex mesh st i =
     (let st = vertices_touch (voff st + i) POSITION st;
          st = (if HasNormals mesh then vertices_touch (voff st + i) NORMAL st else st)
      in if HasTextureCoords0 mesh then vertices_touch (voff st + i) TEX_COORD st else st)"

definition load_face :: "aiMesh \<Rightarrow> mesh_state \<Rightarrow> nat \<Rightarrow> mesh_state" where
  "load_face mesh st f =
     (case mFaces mesh ! f of (a, b, c) \<Rightarrow>
        indices_set (ioff st + f * 3 + 2) (c + voff st)
          (indices_set (ioff st + f * 3 + 1) (b + voff st)
            (indices_set (ioff st + f * 3 + 0) (a + voff st) st)))"




definition initial_mesh_state :: mesh_state where
  "initial_mesh_state =
     \<lparr>bone_idx = (\<lambda>v. float4_make 0 0 0 0), bone_weight = (\<lambda>v. float4_make 0 0 0 0),
      vwrites = [], iwrites = [], voff = 0, ioff = 0, bindex = 0, bones = Map.empty\<rparr>"





lemma find_slot_less:
  assumes "find_slot idx wt bidx < 4"
  shows "(comp wt (find_slot idx wt bidx) = Num 0 \<or> comp idx (find_slot idx wt bidx) = Num (real bidx)) \<and>
    (\<forall>c < find_slot idx wt bidx. comp wt c \<noteq> Num 0 \<and> comp idx c \<noteq> Num (real bidx))"
proof -
  have three: "c < 3 \<longleftrightarrow> c = 0 \<or> c = 1 \<or> c = 2" for c :: nat by arith
  have two: "c < 2 \<longleftrightarrow> c = 0 \<or> c = 1" for c :: nat by arith
  show ?thesis
    using assms by (auto simp: find_slot_def three two split: if_splits)
qed

lemma find_slot_none:
  "find_slot idx wt bidx = 4 \<longleftrightarrow> (\<forall>c < 4. comp wt c \<noteq> Num 0 \<and> comp idx c \<noteq> Num (real bidx))"
proof -
  have four: "c < 4 \<longleftrightarrow> c = 0 \<or> c = 1 \<or> c = 2 \<or> c = 3" for c :: nat by arith
  show ?thesis
    by (auto simp: find_slot_def four split: if_splits)
qed

lemma find_slot_le: "find_slot idx wt bidx \<le> 4"
  by (auto simp: find_slot_def split: if_splits)


text \<open>
  What one contribution does to the two cells of its vertex, as a function of the cells:
  lines 111 to 114 without the buffer around them.
\<close>

definition assign_slot :: "float4 \<times> float4 \<Rightarrow> nat \<times> real \<Rightarrow> float4 \<times> float4" where
  "assign_slot cell contribution =
     (let minidx = find_slot (fst cell) (snd cell) (fst contribution) in
      if 4 \<le> minidx then cell
      else (set_comp (fst cell) minidx (Num (real (fst contribution))),
            set_comp (snd cell) minidx (Num (snd contribution))))"

definition bone_cells :: "mesh_state \<Rightarrow> nat \<Rightarrow> float4 \<times> float4" where
  "bone_cells st vertex = (bone_idx st vertex, bone_weight st vertex)"

definition contribute :: "nat \<Rightarrow> mesh_state \<Rightarrow> nat \<times> real \<Rightarrow> mesh_state" where
  "contribute vertex_id st contribution =
     add_weight (fst contribution) st \<lparr>mVertexId = vertex_id, mWeight = snd contribution\<rparr>"

lemma voff_vertices_set [simp]: "voff (vertices_set v a val st) = voff st"
  by (simp add: vertices_set_def Let_def)

lemma voff_add_weight [simp]: "voff (add_weight bidx st vw) = voff st"
  by (simp add: add_weight_def Let_def)

lemma BONE_attrs_distinct [simp]: "BONE_IDX \<noteq> BONE_WEIGHT" "BONE_WEIGHT \<noteq> BONE_IDX"
  by (simp_all add: BONE_IDX_def BONE_WEIGHT_def)

lemma bone_cells_add_weight:
  "bone_cells (add_weight bidx st vw) v =
     (if v = voff st + mVertexId vw then assign_slot (bone_cells st v) (bidx, mWeight vw)
      else bone_cells st v)"
  by (simp add: bone_cells_def add_weight_def assign_slot_def vertices_get_def
      vertices_set_def Let_def)

lemma bone_cells_contribute:
  "bone_cells (foldl (contribute vid) st cs) (voff st + vid) =
     foldl assign_slot (bone_cells st (voff st + vid)) cs"
proof (induction cs arbitrary: st)
  case Nil
  then show ?case by simp
next
  case (Cons c cs)
  have "voff (contribute vid st c) = voff st"
    by (simp add: contribute_def)
  with Cons [of "contribute vid st c"] show ?case
    by (simp add: contribute_def bone_cells_add_weight)
qed

lemma assign_first_four:
  assumes "distinct [b1, b2, b3, b4, b5]"
    and "w1 \<noteq> 0" "w2 \<noteq> 0" "w3 \<noteq> 0" "w4 \<noteq> 0"
  shows "foldl assign_slot (idx0, float4_make 0 0 0 0)
       [(b1, w1), (b2, w2), (b3, w3), (b4, w4), (b5, w5)] =
     (float4_make (real b1) (real b2) (real b3) (real b4), float4_make w1 w2 w3 w4)"
proof -
  obtain i0 i1 i2 i3 where idx0: "idx0 = Float4 i0 i1 i2 i3"
    by (cases idx0) blast
  let ?b1 = "Num (real b1)" and ?b2 = "Num (real b2)" and ?b3 = "Num (real b3)"
    and ?b4 = "Num (real b4)"
  let ?o = "Num 0"
  have 1: "assign_slot (idx0, Float4 ?o ?o ?o ?o) (b1, w1) =
      (Float4 ?b1 i1 i2 i3, Float4 (Num w1) ?o ?o ?o)"
    by (simp add: idx0 assign_slot_def find_slot_def)
  have 2: "assign_slot (Float4 ?b1 i1 i2 i3, Float4 (Num w1) ?o ?o ?o) (b2, w2) =
      (Float4 ?b1 ?b2 i2 i3, Float4 (Num w1) (Num w2) ?o ?o)"
    using assms by (simp add: assign_slot_def find_slot_def)
  have 3: "assign_slot (Float4 ?b1 ?b2 i2 i3, Float4 (Num w1) (Num w2) ?o ?o) (b3, w3) =
      (Float4 ?b1 ?b2 ?b3 i3, Float4 (Num w1) (Num w2) (Num w3) ?o)"
    using assms by (simp add: assign_slot_def find_slot_def)
  have 4: "assign_slot (Float4 ?b1 ?b2 ?b3 i3, Float4 (Num w1) (Num w2) (Num w3) ?o) (b4, w4) =
      (Float4 ?b1 ?b2 ?b3 ?b4, Float4 (Num w1) (Num w2) (Num w3) (Num w4))"
    using assms by (simp add: assign_slot_def find_slot_def)
  have 5: "assign_slot (Float4 ?b1 ?b2 ?b3 ?b4, Float4 (Num w1) (Num w2) (Num w3) (Num w4))
      (b5, w5) = (Float4 ?b1 ?b2 ?b3 ?b4, Float4 (Num w1) (Num w2) (Num w3) (Num w4))"
    using assms by (simp add: assign_slot_def find_slot_def)
  show ?thesis
    by (simp add: float4_make_def 1 2 3 4 5)
qed

lemma add_weight_dropped:
  assumes "find_slot (bone_idx st (voff st + mVertexId vw)) (bone_weight st (voff st + mVertexId vw))
      bidx = 4"
  shows "add_weight bidx st vw = st"
  using assms by (simp add: add_weight_def vertices_get_def Let_def)

lemma add_weight_assigned:
  assumes "find_slot (bone_idx st (voff st + mVertexId vw)) (bone_weight st (voff st + mVertexId vw))
      bidx = c" and "c < 4"
  shows "bone_idx (add_weight bidx st vw) (voff st + mVertexId vw) =
      set_comp (bone_idx st (voff st + mVertexId vw)) c (Num (real bidx)) \<and>
    bone_weight (add_weight bidx st vw) (voff st + mVertexId vw) =
      set_comp (bone_weight st (voff st + mVertexId vw)) c (Num (mWeight vw))"
  using assms by (simp add: add_weight_def vertices_get_def vertices_set_def Let_def)


text \<open>
  Claim C6, as the code has it. For a contribution of bone \<open>bidx\<close> to a vertex, the slot
  used is the first of the four slots that has weight 0 or holds this bone id, and
  there is such a slot exactly when one of the four has weight 0 or holds this bone id:
  it holds this bone id, or it is the first slot whose weight is 0. The contribution is
  stored there; when all four slots have a non-zero weight and hold other bone ids it
  is dropped and nothing changes. So a vertex without weights that receives five
  contributions from distinct bones, the first four with non-zero weights, keeps
  exactly the first four.
\<close>

theorem bone_slot_assignment:
  "(let vertex = voff st + mVertexId vw;
        idx = bone_idx st vertex;
        wt = bone_weight st vertex;
        c = find_slot idx wt bidx
    in (c < 4 \<longleftrightarrow> (\<exists>c' < 4. comp wt c' = Num 0 \<or> comp idx c' = Num (real bidx))) \<and>
       (c < 4 \<longrightarrow>
          (comp wt c = Num 0 \<or> comp idx c = Num (real bidx)) \<and>
          (\<forall>c' < c. comp wt c' \<noteq> Num 0 \<and> comp idx c' \<noteq> Num (real bidx)) \<and>
          bone_idx (add_weight bidx st vw) vertex = set_comp idx c (Num (real bidx)) \<and>
          bone_weight (add_weight bidx st vw) vertex = set_comp wt c (Num (mWeight vw))) \<and>
       ((\<forall>c < 4. comp wt c \<noteq> Num 0 \<and> comp idx c \<noteq> Num (real bidx)) \<longrightarrow>
          add_weight bidx st vw = st)) \<and>
   (distinct [b1, b2, b3, b4, b5] \<and> w1 \<noteq> 0 \<and> w2 \<noteq> 0 \<and> w3 \<noteq> 0 \<and> w4 \<noteq> 0 \<and>
    bone_weight st (voff st + vid) = float4_make 0 0 0 0 \<longrightarrow>
      bone_cells (foldl (contribute vid) st [(b1, w1), (b2, w2), (b3, w3), (b4, w4), (b5, w5)])
        (voff st + vid) =
      (float4_make (real b1) (real b2) (real b3) (real b4), float4_make w1 w2 w3 w4))"
proof -
  let ?v = "voff st + mVertexId vw"
  let ?idx = "bone_idx st ?v"
  let ?wt = "bone_weight st ?v"
  let ?c = "find_slot ?idx ?wt bidx"
  have found: "?c < 4 \<longleftrightarrow> (\<exists>c' < 4. comp ?wt c' = Num 0 \<or> comp ?idx c' = Num (real bidx))"
    using find_slot_none [of ?idx ?wt bidx] find_slot_le [of ?idx ?wt bidx] by auto
  have a: "(comp ?wt ?c = Num 0 \<or> comp ?idx ?c = Num (real bidx)) \<and>
      (\<forall>c' < ?c. comp ?wt c' \<noteq> Num 0 \<and> comp ?idx c' \<noteq> Num (real bidx)) \<and>
      bone_idx (add_weight bidx st vw) ?v = set_comp ?idx ?c (Num (real bidx)) \<and>
      bone_weight (add_weight bidx st vw) ?v = set_comp ?wt ?c (Num (mWeight vw))"
    if "?c < 4"
    using find_slot_less [OF that] add_weight_assigned [OF refl that] by blast
  have b: "add_weight bidx st vw = st"
    if "\<forall>c < 4. comp ?wt c \<noteq> Num 0 \<and> comp ?idx c \<noteq> Num (real bidx)"
    using that add_weight_dropped [of st vw bidx] find_slot_none [of ?idx ?wt bidx] by blast
  have c: "bone_cells (foldl (contribute vid) st [(b1, w1), (b2, w2), (b3, w3), (b4, w4), (b5, w5)])
        (voff st + vid) =
      (float4_make (real b1) (real b2) (real b3) (real b4), float4_make w1 w2 w3 w4)"
    if "distinct [b1, b2, b3, b4, b5]" "w1 \<noteq> 0" "w2 \<noteq> 0" "w3 \<noteq> 0" "w4 \<noteq> 0"
      "bone_weight st (voff st + vid) = float4_make 0 0 0 0"
    unfolding bone_cells_contribute
    using assign_first_four [OF that(1-5), of "bone_idx st (voff st + vid)" w5] that(6)
    by (simp add: bone_cells_def)
  show ?thesis
    unfolding Let_def using found a b c by blast
qed

lemma initial_cells:
  "voff initial_mesh_state = 0"
  "bone_weight initial_mesh_state v = float4_make 0 0 0 0"
  "bone_idx initial_mesh_state v = float4_make 0 0 0 0"
  by (simp_all add: initial_mesh_state_def)

theorem bone_slot_assignment_witness:
  "find_slot (bone_idx initial_mesh_state 0) (bone_weight initial_mesh_state 0) 7 < 4 \<and>
   bone_cells (add_weight 7 initial_mesh_state \<lparr>mVertexId = 0, mWeight = 1\<rparr>) 0 =
     (float4_make 7 0 0 0, float4_make 1 0 0 0) \<and>
   distinct [1, 2, 3, 4, 5 :: nat] \<and>
   bone_weight initial_mesh_state (voff initial_mesh_state + 0) = float4_make 0 0 0 0 \<and>
   bone_cells (foldl (contribute 0) initial_mesh_state
       [(1, 2/5), (2, 3/10), (3, 1/5), (4, 1/10), (5, 1/2)]) (voff initial_mesh_state + 0) =
     (float4_make 1 2 3 4, float4_make (2/5) (3/10) (1/5) (1/10))"
proof -
  note inst = bone_slot_assignment [of initial_mesh_state "\<lparr>mVertexId = 0, mWeight = 1\<rparr>" 7
      1 2 3 4 5 "2/5" "3/10" "1/5" "1/10" 0 "1/2"]
  have slot: "find_slot (bone_idx initial_mesh_state 0) (bone_weight initial_mesh_state 0) 7 = 0"
    by (simp add: initial_cells find_slot_def float4_make_def)
  have "bone_cells (foldl (contribute 0) initial_mesh_state
       [(1, 2/5), (2, 3/10), (3, 1/5), (4, 1/10), (5, 1/2)]) (voff initial_mesh_state + 0) =
     (float4_make (real 1) (real 2) (real 3) (real 4), float4_make (2/5) (3/10) (1/5) (1/10))"
    using inst by (simp add: initial_cells)
  moreover have "bone_cells (add_weight 7 initial_mesh_state \<lparr>mVertexId = 0, mWeight = 1\<rparr>) 0 =
     (float4_make 7 0 0 0, float4_make 1 0 0 0)"
    using inst slot by (simp add: initial_cells bone_cells_def Let_def float4_make_def)
  ultimately show ?thesis
    using slot by (simp add: initial_cells)
qed

text \<open>
  The claim as the specification words it fails when a contribution has the weight 0:
  its slot still counts as unused and the next bone takes it. Of five contributions
  from the distinct bones 1 to 5, the second with weight 0, the vertex keeps the bones
  1, 3, 4 and 5, not the first four.
\<close>

theorem bone_slot_assignment_counterexample:
  "distinct [1, 2, 3, 4, 5 :: nat] \<and>
   bone_cells (foldl (contribute 0) initial_mesh_state
       [(1, 1/2), (2, 0), (3, 1/5), (4, 1/5), (5, 1/10)]) (voff initial_mesh_state + 0) =
     (float4_make 1 3 4 5, float4_make (1/2) (1/5) (1/5) (1/10))"
  unfolding bone_cells_contribute
  by (simp add: bone_cells_def initial_cells assign_slot_def find_slot_def float4_make_def)


subsection \<open>The post-pass over the vertices of a skinned mesh\<close>

lemma getNodeBone_fields [simp]:
  "voff (snd (getNodeBone name st)) = voff st"
  "bone_idx (snd (getNodeBone name st)) = bone_idx st"
  "bone_weight (snd (getNodeBone name st)) = bone_weight st"
  "vwrites (snd (getNodeBone name st)) = vwrites st"
  "iwrites (snd (getNodeBone name st)) = iwrites st"
  "ioff (snd (getNodeBone name st)) = ioff st"
  by (simp_all add: getNodeBone_def split: option.splits)



lemma bones_vertices_set [simp]: "bones (vertices_set v a val st) = bones st"
  by (simp add: vertices_set_def Let_def)

lemma voff_bind_vertex [simp]: "voff (bind_vertex name st i) = voff st"
  by (simp add: bind_vertex_def Let_def split_beta)









definition post_pass :: "string \<Rightarrow> mesh_state \<Rightarrow> nat \<Rightarrow> mesh_state" where
  "post_pass name st n = foldl (bind_vertex name) st [0 ..< n]"

lemma post_pass_Suc: "post_pass name st (Suc n) = bind_vertex name (post_pass name st n) n"
  by (simp add: post_pass_def)

lemma voff_post_pass [simp]: "voff (post_pass name st n) = voff st"
  by (induction n) (simp_all add: post_pass_Suc, simp add: post_pass_def)
























subsection \<open>What the emission pass writes\<close>














lemma voff_vertices_touch [simp]: "voff (vertices_touch v a st) = voff st"
  by (simp add: vertices_touch_def)






lemma attrs_distinct [simp]:
  "NORMAL \<noteq> POSITION" "TEX_COORD \<noteq> POSITION" "BONE_IDX \<noteq> POSITION" "BONE_WEIGHT \<noteq> POSITION"
  "POSITION \<noteq> BONE_IDX" "POSITION \<noteq> BONE_WEIGHT"
  by (simp_all add: POSITION_def NORMAL_def TEX_COORD_def BONE_IDX_def BONE_WEIGHT_def)


lemma voff_load_vertex [simp]: "voff (load_vertex mesh st i) = voff st"
  by (simp add: load_vertex_def Let_def)

lemma voff_load_vertices [simp]: "voff (foldl (load_vertex mesh) st [0 ..< n]) = voff st"
  by (induction n) simp_all


lemma load_face_fields [simp]:
  "voff (load_face mesh st f) = voff st"
  "ioff (load_face mesh st f) = ioff st"
  "vwrites (load_face mesh st f) = vwrites st"
  by (simp_all add: load_face_def indices_set_def split: prod.splits)


lemma load_faces_fields [simp]:
  "voff (foldl (load_face mesh) st [0 ..< n]) = voff st"
  "ioff (foldl (load_face mesh) st [0 ..< n]) = ioff st"
  "vwrites (foldl (load_face mesh) st [0 ..< n]) = vwrites st"
  by (induction n) simp_all





subsection \<open>The buffers (VertexFormat.h, VertexBuffer and IndexBuffer)\<close>














subsection \<open>The two passes in step\<close>














































end
